theory Spec2Isabelle
  imports Complex_Main "HOL-Library.Word" "HOL-Library.Signed_Division" "HOL-Library.Multiset"
begin

section \<open>JavaScript values\<close>

text \<open>
  A JavaScript string is a sequence of UTF-16 code units; \<open>split('')\<close>, \<open>charCodeAt\<close>
  and \<open>length\<close> all count code units, so a string is a list of 16-bit words.
  Numbers that the code uses as hashes, indices, counters and credit balances are
  integers (\<open>int\<close>, or \<open>nat\<close> for an array position); scores, percentages and
  coordinates are exact rationals. The doubles of the source agree with these as long
  as the integers stay below \<open>2^53\<close>; rounding of non-integer results is not modelled.
  The remainder operator \<open>%\<close> takes the sign of its dividend: it is \<open>smod\<close>.
\<close>

type_synonym js_string = "16 word list"

definition js :: "string \<Rightarrow> js_string" where
  "js s = map of_char s"

datatype js_error = TypeError | RangeError

text \<open>Truthiness of an optional string: \<open>undefined\<close>, \<open>null\<close> and \<open>''\<close> are falsy.\<close>

fun truthy :: "js_string option \<Rightarrow> bool" where
  "truthy None = False"
| "truthy (Some s) = (s \<noteq> [])"

text \<open>\<open>a || b\<close> on optional strings, and \<open>a || d\<close> with a string default.\<close>

definition or_else :: "js_string option \<Rightarrow> js_string option \<Rightarrow> js_string option" where
  "or_else a b = (if truthy a then a else b)"

definition or_default :: "js_string option \<Rightarrow> js_string \<Rightarrow> js_string" where
  "or_default a d = (case a of Some s \<Rightarrow> (if s \<noteq> [] then s else d) | None \<Rightarrow> d)"

text \<open>\<open>String(n)\<close> of an integer, as a template literal renders it.\<close>

function digits :: "nat \<Rightarrow> js_string" where
  "digits n =
     (if n < 10 then [of_nat (48 + n)]
      else digits (n div 10) @ [of_nat (48 + n mod 10)])"
  by pat_completeness auto
termination
  by (relation "measure id") auto

declare digits.simps [simp del]

definition toString :: "int \<Rightarrow> js_string" where
  "toString n = (if n < 0 then js ''-'' @ digits (nat (- n)) else digits (nat n))"

text \<open>\<open>s.split(sep)\<close> for a one-character separator.\<close>

fun split :: "16 word \<Rightarrow> js_string \<Rightarrow> js_string list" where
  "split sep [] = [[]]"
| "split sep (c # cs) =
     (if c = sep then [] # split sep cs
      else (case split sep cs of [] \<Rightarrow> [[c]] | p # ps \<Rightarrow> (c # p) # ps))"

text \<open>Array indexing: an out-of-range read is \<open>undefined\<close>.\<close>

definition nth_opt :: "'a list \<Rightarrow> int \<Rightarrow> 'a option" where
  "nth_opt xs i = (if 0 \<le> i \<and> i < int (length xs) then Some (xs ! nat i) else None)"

section \<open>The deterministic fallback generator (utils.ts)\<close>

text \<open>
  \<^verbatim>\<open>pubkey.split('').reduce((acc, char, i) => acc + char.charCodeAt(0) * (i + 1), 0)\<close>
\<close>

definition hashPubkey :: "js_string \<Rightarrow> int" where
  "hashPubkey pubkey =
     foldl (\<lambda>acc (char, i). acc + int (unat char) * (int i + 1)) 0
       (zip pubkey [0..<length pubkey])"

definition generateDeterministicIP :: "js_string \<Rightarrow> js_string" where
  "generateDeterministicIP pubkey =
     (let hash = hashPubkey pubkey
      in toString ((hash smod 200) + 50) @ js ''.'' @ toString ((hash * 7) smod 256) @ js ''.''
         @ toString ((hash * 13) smod 256) @ js ''.'' @ toString ((hash * 19) smod 256))"

datatype tier = excellent | good | fair | poor

definition getTier :: "rat \<Rightarrow> tier" where
  "getTier score =
     (if score \<ge> 80 then excellent
      else if score \<ge> 60 then good
      else if score \<ge> 30 then fair
      else poor)"

record place =
  p_country :: js_string
  p_countryCode :: js_string
  p_city :: js_string
  p_lat :: rat
  p_lng :: rat

definition mk_place :: "string \<Rightarrow> string \<Rightarrow> js_string \<Rightarrow> rat \<Rightarrow> rat \<Rightarrow> place" where
  "mk_place co cc ci la lo =
     \<lparr>p_country = js co, p_countryCode = js cc, p_city = ci, p_lat = la, p_lng = lo\<rparr>"

definition NODE_LOCATIONS :: "place list" where
  "NODE_LOCATIONS =
    [ mk_place ''United States'' ''US'' (js ''New York'') 40.7128 (- 74.006),
      mk_place ''United States'' ''US'' (js ''Los Angeles'') 34.0522 (- 118.2437),
      mk_place ''United States'' ''US'' (js ''Chicago'') 41.8781 (- 87.6298),
      mk_place ''United States'' ''US'' (js ''Miami'') 25.7617 (- 80.1918),
      mk_place ''United States'' ''US'' (js ''Dallas'') 32.7767 (- 96.7970),
      mk_place ''United States'' ''US'' (js ''Seattle'') 47.6062 (- 122.3321),
      mk_place ''Germany'' ''DE'' (js ''Frankfurt'') 50.1109 8.6821,
      mk_place ''Germany'' ''DE'' (js ''Berlin'') 52.52 13.405,
      mk_place ''Germany'' ''DE'' (js ''Munich'') 48.1351 11.5820,
      mk_place ''Netherlands'' ''NL'' (js ''Amsterdam'') 52.3676 4.9041,
      mk_place ''United Kingdom'' ''GB'' (js ''London'') 51.5074 (- 0.1278),
      mk_place ''France'' ''FR'' (js ''Paris'') 48.8566 2.3522,
      mk_place ''Japan'' ''JP'' (js ''Tokyo'') 35.6762 139.6503,
      mk_place ''Singapore'' ''SG'' (js ''Singapore'') 1.3521 103.8198,
      mk_place ''Australia'' ''AU'' (js ''Sydney'') (- 33.8688) 151.2093,
      mk_place ''Canada'' ''CA'' (js ''Toronto'') 43.6532 (- 79.3832),
      mk_place ''Brazil'' ''BR'' (js ''S'' @ [0xE3] @ js ''o Paulo'') (- 23.5505) (- 46.6333),
      mk_place ''India'' ''IN'' (js ''Mumbai'') 19.076 72.8777,
      mk_place ''India'' ''IN'' (js ''Bangalore'') 12.9716 77.5946,
      mk_place ''South Korea'' ''KR'' (js ''Seoul'') 37.5665 126.978,
      mk_place ''Switzerland'' ''CH'' (js ''Zurich'') 47.3769 8.5417,
      mk_place ''Ireland'' ''IE'' (js ''Dublin'') 53.3498 (- 6.2603),
      mk_place ''Poland'' ''PL'' (js ''Warsaw'') 52.2297 21.0122,
      mk_place ''Finland'' ''FI'' (js ''Helsinki'') 60.1699 24.9384,
      mk_place ''Sweden'' ''SE'' (js ''Stockholm'') 59.3293 18.0686,
      mk_place ''Spain'' ''ES'' (js ''Madrid'') 40.4168 (- 3.7038),
      mk_place ''Italy'' ''IT'' (js ''Milan'') 45.4642 9.1900,
      mk_place ''Hong Kong'' ''HK'' (js ''Hong Kong'') 22.3193 114.1694,
      mk_place ''UAE'' ''AE'' (js ''Dubai'') 25.2048 55.2708,
      mk_place ''South Africa'' ''ZA'' (js ''Cape Town'') (- 33.9249) 18.4241 ]"

definition DATACENTERS :: "js_string list" where
  "DATACENTERS = map js
    [ ''AWS US-East'', ''AWS US-West'', ''AWS EU-West'', ''AWS AP-Tokyo'',
      ''GCP US-Central'', ''GCP EU-West'', ''GCP Asia-East'',
      ''Hetzner FSN'', ''Hetzner HEL'', ''OVH FR'', ''OVH DE'',
      ''Contabo DE'', ''Contabo US'', ''DigitalOcean NYC'', ''DigitalOcean AMS'',
      ''Vultr'', ''Linode'', ''Azure EU'', ''Azure US'' ]"

record asn_entry =
  a_asn :: js_string
  a_provider :: js_string

definition ASNS :: "asn_entry list" where
  "ASNS = map (\<lambda>(a, p). \<lparr>a_asn = js a, a_provider = js p\<rparr>)
    [ (''AS24940'', ''Hetzner''), (''AS51167'', ''Contabo''), (''AS16509'', ''Amazon''),
      (''AS15169'', ''Google''), (''AS8075'', ''Microsoft''), (''AS16276'', ''OVH''),
      (''AS14061'', ''DigitalOcean''), (''AS20473'', ''Vultr'') ]"

text \<open>
  The location object of a node. \<open>datacenter\<close> and \<open>asn\<close> are optional in the node type
  (the metrics code tests them for truthiness).
\<close>

record node_location =
  country :: js_string
  countryCode :: js_string
  city :: js_string
  lat :: rat
  lng :: rat
  datacenter :: "js_string option"
  asn :: "js_string option"

text \<open>
  \<open>getNodeLocation\<close> reads three tables at computed indices. In JavaScript an
  out-of-range read gives \<open>undefined\<close> and \<open>asnData.asn\<close> on it raises a
  \<open>TypeError\<close>; the model reports every out-of-range read as that error, so that a
  result \<open>Inr\<close> is an object with all its fields read from the tables.
\<close>

definition getNodeLocation :: "js_string \<Rightarrow> int \<Rightarrow> js_error + node_location" where
  "getNodeLocation pubkey index =
     (let hash = hashPubkey pubkey
      in case (nth_opt NODE_LOCATIONS ((hash + index) smod int (length NODE_LOCATIONS)),
               nth_opt DATACENTERS ((hash * 7 + index) smod int (length DATACENTERS)),
               nth_opt ASNS ((hash * 13 + index) smod int (length ASNS))) of
           (Some location, Some dc, Some asnData) \<Rightarrow>
             Inr \<lparr>country = p_country location, countryCode = p_countryCode location,
                  city = p_city location, lat = p_lat location, lng = p_lng location,
                  datacenter = Some dc, asn = Some (a_asn asnData)\<rparr>
         | _ \<Rightarrow> Inl TypeError)"

text \<open>
  What a syntactically valid dotted quad is: four parts separated by dots, each one
  to three decimal digits with a value in range (the first octet in \<open>[lo, hi]\<close>).
\<close>

definition is_digit :: "16 word \<Rightarrow> bool" where
  "is_digit c = (48 \<le> c \<and> c \<le> 57)"

definition decimal_value :: "js_string \<Rightarrow> nat" where
  "decimal_value s = foldl (\<lambda>acc c. acc * 10 + (unat c - 48)) 0 s"

definition is_octet :: "nat \<Rightarrow> nat \<Rightarrow> js_string \<Rightarrow> bool" where
  "is_octet lo hi s =
     (s \<noteq> [] \<and> length s \<le> 3 \<and> list_all is_digit s
      \<and> lo \<le> decimal_value s \<and> decimal_value s \<le> hi)"

definition is_ipv4 :: "nat \<Rightarrow> nat \<Rightarrow> js_string \<Rightarrow> bool" where
  "is_ipv4 lo hi s =
     (case split 46 s of
        [a, b, c, d] \<Rightarrow>
          is_octet lo hi a \<and> is_octet 0 255 b \<and> is_octet 0 255 c \<and> is_octet 0 255 d
      | _ \<Rightarrow> False)"

section \<open>The node record (types/pnode)\<close>

datatype status = online | offline | degraded

record metrics =
  cpuPercent :: rat
  memoryPercent :: rat
  storageUsedGB :: rat
  storageCapacityGB :: rat
  responseTimeMs :: rat

record performance =
  score :: rat
  tier :: tier

record gossip =
  peersConnected :: rat
  messagesReceived :: rat
  messagesSent :: rat

record staking =
  commission :: rat
  delegatedStake :: rat
  activatedStake :: rat
  apy :: rat
  lastVote :: rat
  rootSlot :: rat

text \<open>
  \<open>lastSeen\<close> is the instant (milliseconds since the epoch) whose ISO rendering the
  source stores. The \<open>history\<close> arrays are left out: their samples are computed with
  \<open>Math.sin\<close> and \<open>Math.cos\<close>, and nothing below reads them.
\<close>

record pnode =
  node_id :: js_string
  pubkey :: js_string
  ip :: js_string
  port :: int
  version :: js_string
  status :: status
  uptime :: rat
  lastSeen :: int
  location :: "node_location option"
  credits :: "int option"
  creditsRank :: "nat option"
  metrics :: metrics
  performance :: performance
  gossip :: gossip
  staking :: staking

text \<open>Running a function that may throw over an array, as \<open>Array.map\<close> does.\<close>

fun traverse :: "('a \<Rightarrow> js_error + 'b) \<Rightarrow> 'a list \<Rightarrow> js_error + 'b list" where
  "traverse f [] = Inr []"
| "traverse f (x # xs) =
     (case f x of
        Inl e \<Rightarrow> Inl e
      | Inr y \<Rightarrow> (case traverse f xs of Inl e \<Rightarrow> Inl e | Inr ys \<Rightarrow> Inr (y # ys)))"

text \<open>The pairs \<open>(element, index)\<close> that the callback of \<open>Array.map\<close> receives.\<close>

definition indexed :: "'a list \<Rightarrow> ('a \<times> nat) list" where
  "indexed xs = zip xs [0..<length xs]"

section \<open>The credits-driven merge (lib/pnode-api.ts)\<close>

record pod =
  pod_credits :: int
  pod_id :: js_string

definition MAX_CREDITS :: rat where
  "MAX_CREDITS = 60000"

definition calculatePerformanceFromCredits :: "int \<Rightarrow> performance" where
  "calculatePerformanceFromCredits c =
     (let normalizedScore = min 100 ((of_int c / MAX_CREDITS) * 100)
      in \<lparr>score = normalizedScore, tier = getTier normalizedScore\<rparr>)"

text \<open>
  \<open>transformPodToNode\<close>; \<open>now\<close> is the clock that \<open>new Date()\<close> and \<open>Date.now()\<close>
  read. The capacity is read from a four-element array at a computed index; as in
  \<open>getNodeLocation\<close>, a read out of range is reported as an error.
\<close>

definition transformPodToNode :: "int \<Rightarrow> pod \<Rightarrow> nat \<Rightarrow> nat \<Rightarrow> js_error + pnode" where
  "transformPodToNode now pod index totalNodes =
     (let pubkey = pod_id pod;
          credits = pod_credits pod;
          hash = hashPubkey pubkey;
          performance = calculatePerformanceFromCredits credits;
          status = (if credits > 5000 then online
                    else if credits > 0 then degraded else offline);
          uptimeBase = (if credits > 0 then 70 + (score performance * 0.3) else 0);
          cpuBase = (if status = online then 20 + of_int (hash smod 30) else 0);
          memBase = (if status = online then 40 + of_int (hash smod 25) else 0);
          latencyBase = (if status = online
                         then 30 + (100 - score performance) + of_int (hash smod 20)
                         else 999)
      in case (getNodeLocation pubkey (int index),
               nth_opt [1000, 2000, 4000, 8000] ((hash + int index) smod 4)) of
           (Inr loc, Some capacity) \<Rightarrow>
             Inr \<lparr>node_id = js ''pnode_'' @ toString (int index),
                  pubkey = pubkey,
                  ip = generateDeterministicIP pubkey,
                  port = 6000,
                  version = js ''0.7.0'',
                  status = status,
                  uptime = uptimeBase,
                  lastSeen = now,
                  location = Some loc,
                  credits = Some credits,
                  creditsRank = Some (index + 1),
                  metrics = \<lparr>cpuPercent = cpuBase, memoryPercent = memBase,
                             storageUsedGB = 100 + of_int (hash smod 400),
                             storageCapacityGB = capacity,
                             responseTimeMs = latencyBase\<rparr>,
                  performance = performance,
                  gossip = \<lparr>peersConnected =
                               (if status = online then 10 + of_int (hash smod 40) else 0),
                            messagesReceived = of_int (credits * 10),
                            messagesSent = of_int (credits * 8)\<rparr>,
                  staking = \<lparr>commission = of_int (hash smod 10),
                             delegatedStake = of_int (credits * 100),
                             activatedStake = of_int (credits * 90),
                             apy = 5 + (score performance / 50),
                             lastVote = of_int now - (100 - score performance) * 1000,
                             rootSlot = of_int (85000000 + int index)\<rparr>\<rparr>
         | (Inl e, _) \<Rightarrow> Inl e
         | (_, None) \<Rightarrow> Inl TypeError)"

text \<open>
  An entry of the RPC \<open>getClusterNodes\<close> answer, read by \<open>transformClusterNodeData\<close>
  (the source types it \<open>any\<close>; these are the fields it reads).
\<close>

record cluster_node =
  cn_pubkey :: "js_string option"
  cn_nodePubkey :: "js_string option"
  cn_gossip :: "js_string option"
  cn_rpc :: "js_string option"
  cn_version :: "js_string option"
  cn_delinquent :: bool

text \<open>
  \<open>parseInt(s)\<close> without a radix: leading white space, an optional sign, an optional
  \<open>0x\<close> prefix, then the longest run of digits; \<open>None\<close> is \<open>NaN\<close>.
\<close>

definition is_space :: "16 word \<Rightarrow> bool" where
  "is_space c = (c \<in> {9, 10, 11, 12, 13, 32, 0xA0, 0x1680, 0x2028, 0x2029, 0x202F, 0x205F,
                        0x3000, 0xFEFF} \<or> (0x2000 \<le> c \<and> c \<le> 0x200A))"

definition digit_value :: "16 word \<Rightarrow> nat option" where
  "digit_value c =
     (if 48 \<le> c \<and> c \<le> 57 then Some (unat c - 48)
      else if 97 \<le> c \<and> c \<le> 122 then Some (unat c - 87)
      else if 65 \<le> c \<and> c \<le> 90 then Some (unat c - 55)
      else None)"

fun parse_digits :: "nat \<Rightarrow> js_string \<Rightarrow> nat option \<Rightarrow> nat option" where
  "parse_digits radix [] acc = acc"
| "parse_digits radix (c # cs) acc =
     (case digit_value c of
        Some v \<Rightarrow>
          (if v < radix
           then parse_digits radix cs (Some ((case acc of None \<Rightarrow> 0 | Some a \<Rightarrow> a) * radix + v))
           else acc)
      | None \<Rightarrow> acc)"

definition parseInt :: "js_string option \<Rightarrow> int option" where
  "parseInt arg =
     (case arg of
        None \<Rightarrow> None
      | Some s \<Rightarrow>
          (let t = dropWhile is_space s;
               (neg, u) = (case t of
                             c # r \<Rightarrow> (if c = 45 then (True, r)
                                        else if c = 43 then (False, r) else (False, t))
                           | [] \<Rightarrow> (False, t));
               (radix, w) = (case u of
                               z # x # r \<Rightarrow> (if z = 48 \<and> (x = 120 \<or> x = 88) then (16, r)
                                               else (10, u))
                             | _ \<Rightarrow> (10, u))
           in map_option (\<lambda>n. if neg then - int n else int n) (parse_digits radix w None)))"

definition transformClusterNodeData :: "int \<Rightarrow> cluster_node \<Rightarrow> nat \<Rightarrow> js_error + pnode" where
  "transformClusterNodeData now node index =
     (let pubkey = or_default (or_else (cn_pubkey node) (cn_nodePubkey node))
                     (js ''devnet_node_'' @ toString (int index));
          hash = hashPubkey pubkey;
          ip = or_default
                 (or_else (Option.bind (cn_gossip node) (\<lambda>g. nth_opt (split 58 g) 0))
                          (Option.bind (cn_rpc node) (\<lambda>r. nth_opt (split 58 r) 0)))
                 (generateDeterministicIP pubkey);
          gossipPort = Option.bind (cn_gossip node) (\<lambda>g. nth_opt (split 58 g) 1)
      in case getNodeLocation pubkey (int index) of
           Inl e \<Rightarrow> Inl e
         | Inr loc \<Rightarrow>
             Inr \<lparr>node_id = js ''pnode_'' @ toString (int index),
                  pubkey = pubkey,
                  ip = ip,
                  port = (case parseInt gossipPort of
                            Some n \<Rightarrow> (if n \<noteq> 0 then n else 8899)
                          | None \<Rightarrow> 8899),
                  version = or_default (cn_version node) (js ''0.7.0''),
                  status = (if cn_delinquent node then offline else online),
                  uptime = (if cn_delinquent node then 0 else 80 + of_int (hash smod 20)),
                  lastSeen = now,
                  location = Some loc,
                  credits = None,
                  creditsRank = None,
                  metrics = \<lparr>cpuPercent = 20 + of_int (hash smod 30),
                             memoryPercent = 40 + of_int (hash smod 25),
                             storageUsedGB = 100 + of_int (hash smod 400),
                             storageCapacityGB = 1000,
                             responseTimeMs = 50 + of_int (hash smod 50)\<rparr>,
                  performance =
                    \<lparr>score = (if cn_delinquent node then 0 else 60 + of_int (hash smod 40)),
                     tier = getTier (if cn_delinquent node then 0 else 60 + of_int (hash smod 40))\<rparr>,
                  gossip = \<lparr>peersConnected = 10 + of_int (hash smod 40),
                            messagesReceived = 10000 + of_int (hash smod 50000),
                            messagesSent = 8000 + of_int (hash smod 40000)\<rparr>,
                  staking = \<lparr>commission = of_int (hash smod 10),
                             delegatedStake = 10000 + of_int (hash smod 100000),
                             activatedStake = 9000 + of_int (hash smod 90000),
                             apy = 5 + of_int (hash smod 30) / 10,
                             lastVote = of_int now - of_int (hash smod 10000),
                             rootSlot = of_int (85000000 + int index)\<rparr>\<rparr>)"

text \<open>
  \<open>getClusterNodes\<close> of lib/pnode-api.ts. \<open>podCredits\<close> is what \<open>fetchPodCredits\<close>
  delivers (\<open>None\<close>: \<open>null\<close>, or an answer without \<open>pods_credits\<close>) and \<open>clusterData\<close>
  what \<open>fetchRPC('getClusterNodes')\<close> delivers (\<open>None\<close>: \<open>null\<close> or not an array).
  \<open>Array.prototype.sort\<close> is stable, as \<open>sort_key\<close> is; the comparator
  \<open>b.credits - a.credits\<close> orders by descending credits. An exception anywhere inside
  is caught and turned into the empty array.
\<close>

definition getClusterNodes ::
  "int \<Rightarrow> pod list option \<Rightarrow> cluster_node list option \<Rightarrow> pnode list" where
  "getClusterNodes now podCredits clusterData =
     (let attempt =
        (case podCredits of
           Some pods_credits \<Rightarrow>
             (if length pods_credits > 0
              then (let sortedPods = sort_key (\<lambda>p. - pod_credits p) pods_credits
                    in traverse (\<lambda>(pod, index).
                                   transformPodToNode now pod index (length sortedPods))
                         (indexed sortedPods))
              else (case clusterData of
                      Some nodes \<Rightarrow>
                        traverse (\<lambda>(node, index). transformClusterNodeData now node index)
                          (indexed nodes)
                    | None \<Rightarrow> Inr []))
         | None \<Rightarrow>
             (case clusterData of
                Some nodes \<Rightarrow>
                  traverse (\<lambda>(node, index). transformClusterNodeData now node index)
                    (indexed nodes)
              | None \<Rightarrow> Inr []))
      in case attempt of Inl e \<Rightarrow> [] | Inr nodes \<Rightarrow> nodes)"

section \<open>Derived metrics (lib/pnode-api.ts)\<close>

text \<open>
  The metric functions of the source start with \<open>await getClusterNodes()\<close> and then
  compute on the array; here they take the array.
\<close>

record network_stats =
  totalNodes :: nat
  onlineNodes :: nat
  offlineNodes :: nat
  degradedNodes :: nat
  totalStorageCapacityTB :: rat
  totalStorageUsedTB :: rat
  averageUptime :: rat
  averageResponseTime :: rat
  networkHealth :: rat
  gossipMessages24h :: rat
  lastUpdated :: int

definition getNetworkStats :: "int \<Rightarrow> pnode list \<Rightarrow> network_stats" where
  "getNetworkStats now nodes =
     (let onlineNodes = length (filter (\<lambda>n. status n = online) nodes);
          offlineNodes = length (filter (\<lambda>n. status n = offline) nodes);
          degradedNodes = length (filter (\<lambda>n. status n = degraded) nodes);
          totalCapacity = foldl (\<lambda>acc n. acc + storageCapacityGB (metrics n)) 0 nodes / 1000;
          totalUsed = foldl (\<lambda>acc n. acc + storageUsedGB (metrics n)) 0 nodes / 1000;
          onlineNodesData = filter (\<lambda>n. status n = online) nodes;
          avgUptime = (if length onlineNodesData > 0
                       then foldl (\<lambda>acc n. acc + uptime n) 0 onlineNodesData
                            / of_nat (length onlineNodesData)
                       else 0);
          avgResponseTime = (if length onlineNodesData > 0
                             then foldl (\<lambda>acc n. acc + responseTimeMs (metrics n)) 0 onlineNodesData
                                  / of_nat (length onlineNodesData)
                             else 0);
          networkHealth = (if length nodes > 0
                           then (of_nat onlineNodes / of_nat (length nodes)) * 100
                           else 0)
      in \<lparr>totalNodes = length nodes,
          onlineNodes = onlineNodes,
          offlineNodes = offlineNodes,
          degradedNodes = degradedNodes,
          totalStorageCapacityTB = totalCapacity,
          totalStorageUsedTB = totalUsed,
          averageUptime = avgUptime,
          averageResponseTime = avgResponseTime,
          networkHealth = networkHealth,
          gossipMessages24h =
            foldl (\<lambda>acc n. acc + messagesReceived (gossip n) + messagesSent (gossip n)) 0 nodes,
          lastUpdated = now\<rparr>)"

text \<open>
  The counting objects of \<open>getDecentralizationMetrics\<close> are association lists in
  insertion order, which is the order \<open>Object.entries\<close> enumerates string keys in.
  Keys are taken not to be canonical array indices (which JavaScript enumerates first)
  and not to be members of \<open>Object.prototype\<close>.
\<close>

definition bump :: "js_string \<Rightarrow> (js_string \<times> nat) list \<Rightarrow> (js_string \<times> nat) list" where
  "bump k m =
     (case map_of m k of
        None \<Rightarrow> m @ [(k, 1)]
      | Some c \<Rightarrow> map (\<lambda>(k', c'). if k' = k then (k', c' + 1) else (k', c')) m)"

definition bump_asn ::
  "js_string \<Rightarrow> js_string \<Rightarrow> (js_string \<times> js_string \<times> nat) list \<Rightarrow>
   (js_string \<times> js_string \<times> nat) list" where
  "bump_asn k provider m =
     (let m' = (case map_of m k of None \<Rightarrow> m @ [(k, provider, 0)] | Some e \<Rightarrow> m)
      in map (\<lambda>(k', p', c'). if k' = k then (k', p', c' + 1) else (k', p', c')) m')"

definition count_node ::
  "(js_string \<times> nat) list \<times> (js_string \<times> nat) list \<times> (js_string \<times> js_string \<times> nat) list \<Rightarrow>
   pnode \<Rightarrow>
   (js_string \<times> nat) list \<times> (js_string \<times> nat) list \<times> (js_string \<times> js_string \<times> nat) list" where
  "count_node counts node =
     (case counts of (countryCount, datacenterCount, asnCount) \<Rightarrow>
        (case location node of
           None \<Rightarrow> counts
         | Some loc \<Rightarrow>
             (bump (country loc) countryCount,
              (case datacenter loc of
                 Some dc \<Rightarrow> (if dc \<noteq> [] then bump dc datacenterCount else datacenterCount)
               | None \<Rightarrow> datacenterCount),
              (case asn loc of
                 Some a \<Rightarrow>
                   (if a \<noteq> []
                    then bump_asn a
                           (or_default (map_option a_provider (find (\<lambda>e. a_asn e = a) ASNS))
                              (js ''Unknown''))
                           asnCount
                    else asnCount)
               | None \<Rightarrow> asnCount))))"

record share =
  share_name :: js_string
  share_count :: nat
  share_percentage :: rat

record asn_share =
  as_asn :: js_string
  as_provider :: js_string
  as_count :: nat
  as_percentage :: rat

record decentralization_metrics =
  nakamotoCoefficient :: nat
  giniCoefficient :: rat
  countryDistribution :: "share list"
  datacenterDistribution :: "share list"
  asnDistribution :: "asn_share list"

text \<open>
  \<^verbatim>\<open>for (const count of sortedCounts) { sum += count; nakamoto++; if (sum > total / 2) break; }\<close>
\<close>

fun nakamoto_loop :: "rat \<Rightarrow> nat list \<Rightarrow> nat \<Rightarrow> nat \<Rightarrow> nat" where
  "nakamoto_loop half [] sum_acc nakamoto = nakamoto"
| "nakamoto_loop half (cnt # rest) sum_acc nakamoto =
     (if of_nat (sum_acc + cnt) > half then nakamoto + 1
      else nakamoto_loop half rest (sum_acc + cnt) (nakamoto + 1))"

definition getDecentralizationMetrics :: "pnode list \<Rightarrow> decentralization_metrics" where
  "getDecentralizationMetrics nodes =
     (case foldl count_node ([], [], []) nodes of (countryCount, datacenterCount, asnCount) \<Rightarrow>
        (let total = (if length nodes \<noteq> 0 then length nodes else 1);
             sortedCounts = sort_key (\<lambda>c. - int c) (map snd countryCount)
         in \<lparr>nakamotoCoefficient = nakamoto_loop (of_nat total / 2) sortedCounts 0 0,
             giniCoefficient = 0.35,
             countryDistribution =
               sort_key (\<lambda>e. - int (share_count e))
                 (map (\<lambda>(c, n). \<lparr>share_name = c, share_count = n,
                                  share_percentage = (of_nat n / of_nat total) * 100\<rparr>)
                    countryCount),
             datacenterDistribution =
               sort_key (\<lambda>e. - int (share_count e))
                 (map (\<lambda>(d, n). \<lparr>share_name = d, share_count = n,
                                  share_percentage = (of_nat n / of_nat total) * 100\<rparr>)
                    datacenterCount),
             asnDistribution =
               sort_key (\<lambda>e. - int (as_count e))
                 (map (\<lambda>(a, p, n). \<lparr>as_asn = a, as_provider = p, as_count = n,
                                     as_percentage = (of_nat n / of_nat total) * 100\<rparr>)
                    asnCount)\<rparr>))"

subsection \<open>X-Score\<close>






subsection \<open>Superminority\<close>

datatype risk = high | medium | low

record superminority_node =
  sm_pubkey :: js_string
  sm_stake :: int
  sm_percentage :: rat

record superminority_info =
  sm_count :: nat
  sm_threshold :: nat
  sm_nodes :: "superminority_node list"
  riskLevel :: risk

text \<open>\<open>n.credits || 0\<close>\<close>

definition credits_or_0 :: "pnode \<Rightarrow> int" where
  "credits_or_0 n = (case credits n of Some c \<Rightarrow> c | None \<Rightarrow> 0)"

text \<open>
  The accumulation loop: \<open>sum_acc\<close> (the source's \<open>sum\<close>) and \<open>superminorityNodes\<close> are the loop's variables,
  the list is what remains of \<open>sorted\<close>.
\<close>

fun superminority_loop ::
  "rat \<Rightarrow> int \<Rightarrow> pnode list \<Rightarrow> int \<Rightarrow> superminority_node list \<Rightarrow> superminority_node list" where
  "superminority_loop threshold totalCredits [] sum_acc superminorityNodes = superminorityNodes"
| "superminority_loop threshold totalCredits (node # rest) sum_acc superminorityNodes =
     (if of_int sum_acc \<ge> threshold then superminorityNodes
      else superminority_loop threshold totalCredits rest (sum_acc + credits_or_0 node)
             (superminorityNodes @
               [\<lparr>sm_pubkey = pubkey node,
                 sm_stake = credits_or_0 node,
                 sm_percentage = (if totalCredits > 0
                                  then (of_int (credits_or_0 node) / of_int totalCredits) * 100
                                  else 0)\<rparr>]))"

text \<open>The entry that the loop pushes for a node.\<close>

definition mk_superminority_node :: "int \<Rightarrow> pnode \<Rightarrow> superminority_node" where
  "mk_superminority_node totalCredits node =
     \<lparr>sm_pubkey = pubkey node,
      sm_stake = credits_or_0 node,
      sm_percentage = (if totalCredits > 0
                       then (of_int (credits_or_0 node) / of_int totalCredits) * 100
                       else 0)\<rparr>"

definition getSuperminorityInfo :: "pnode list \<Rightarrow> superminority_info" where
  "getSuperminorityInfo nodes =
     (let totalCredits = foldl (\<lambda>acc n. acc + credits_or_0 n) 0 nodes;
          sorted = sort_key (\<lambda>n. - credits_or_0 n) nodes;
          threshold = of_int totalCredits * 0.33;
          superminorityNodes = superminority_loop threshold totalCredits sorted 0 []
      in \<lparr>sm_count = length superminorityNodes,
          sm_threshold = 33,
          sm_nodes = superminorityNodes,
          riskLevel = (if length superminorityNodes < 5 then high
                       else if length superminorityNodes < 15 then medium else low)\<rparr>)"

section \<open>Geolocation records\<close>

text \<open>
  An entry of the batch geolocation answer; \<open>geo_success\<close> is \<open>status === 'success'\<close>.
\<close>

record geolocation =
  geo_success :: bool
  geo_country :: "js_string option"
  geo_countryCode :: "js_string option"
  geo_city :: "js_string option"
  geo_lat :: "rat option"
  geo_lon :: "rat option"
  geo_org :: "js_string option"
  geo_as :: "js_string option"

text \<open>\<open>x || d\<close> on an optional number: \<open>undefined\<close> and \<open>0\<close> are falsy.\<close>

definition num_or :: "'a::zero option \<Rightarrow> 'a \<Rightarrow> 'a" where
  "num_or x d = (case x of Some v \<Rightarrow> (if v \<noteq> 0 then v else d) | None \<Rightarrow> d)"

section \<open>The RPC-driven merge and the persistent cache (server/api/pnodes.ts)\<close>

text \<open>A pod of the \<open>getPodsWithStats\<close> answer (typed \<open>any\<close>; the fields the code reads).\<close>

record rpc_node =
  rpc_pubkey :: "js_string option"
  rpc_address :: "js_string option"
  rpc_port :: "int option"
  rpc_version :: "js_string option"
  last_seen_timestamp :: "int option"
  rpc_uptime :: "rat option"
  storage_used :: "rat option"
  storage_committed :: "rat option"

text \<open>
  \<open>new Date(ms).toISOString()\<close> raises a \<open>RangeError\<close> for an invalid date: a
  missing timestamp (\<open>NaN\<close>) or one outside \<open>\<plusminus>8.64e15\<close> milliseconds.
\<close>

definition toISOString :: "int option \<Rightarrow> js_error + int" where
  "toISOString ms =
     (case ms of
        Some t \<Rightarrow> (if \<bar>t\<bar> \<le> 8640000000000000 then Inr t else Inl RangeError)
      | None \<Rightarrow> Inl RangeError)"

definition mapRpcNodeToPNode ::
  "int \<Rightarrow> rpc_node \<Rightarrow> int \<Rightarrow> nat \<Rightarrow> geolocation option \<Rightarrow> js_error + pnode" where
  "mapRpcNodeToPNode now rpcNode creditData index geoData =
     (let pubkey = or_default (rpc_pubkey rpcNode) (js ''unknown-'' @ toString (int index));
          ip = (if truthy (rpc_address rpcNode)
                then (case nth_opt (split 58 (the (rpc_address rpcNode))) 0 of
                        Some p \<Rightarrow> p | None \<Rightarrow> [])
                else generateDeterministicIP pubkey);
          port = num_or (rpc_port rpcNode) 6000;
          version = or_default (rpc_version rpcNode) (js ''0.7.0'');
          credits = creditData;
          normalizedScore = min 100 ((of_int credits / 60000) * 100);
          hash = hashPubkey pubkey;
          isOnline = (case last_seen_timestamp rpcNode of
                        Some t \<Rightarrow> (of_int now / 1000) - of_int t < (300 :: rat)
                      | None \<Rightarrow> False);
          status = (if isOnline then online else offline);
          performance = \<lparr>score = normalizedScore, tier = getTier normalizedScore\<rparr>
      in case (case geoData of
                 Some g \<Rightarrow>
                   Inr \<lparr>country = or_default (geo_country g) (js ''Unknown''),
                        countryCode = or_default (geo_countryCode g) (js ''UN''),
                        city = or_default (geo_city g) (js ''Unknown''),
                        lat = num_or (geo_lat g) 0,
                        lng = num_or (geo_lon g) 0,
                        datacenter = Some (or_default (geo_org g) (js ''Unknown'')),
                        asn = Some (or_default
                                      (Option.bind (geo_as g) (\<lambda>a. nth_opt (split 32 a) 0))
                                      (js ''Unknown''))\<rparr>
               | None \<Rightarrow> getNodeLocation pubkey (int index)) of
           Inl e \<Rightarrow> Inl e
         | Inr loc \<Rightarrow>
             (case toISOString (map_option (\<lambda>t. t * 1000) (last_seen_timestamp rpcNode)) of
                Inl e \<Rightarrow> Inl e
              | Inr seen \<Rightarrow>
                  Inr \<lparr>node_id = js ''pnode_'' @ toString (int index),
                       pubkey = pubkey,
                       ip = ip,
                       port = port,
                       version = version,
                       status = status,
                       uptime = num_or (rpc_uptime rpcNode) 0,
                       lastSeen = seen,
                       location = Some loc,
                       credits = Some credits,
                       creditsRank = Some (index + 1),
                       metrics =
                         \<lparr>cpuPercent = 20 + of_int (hash smod 30),
                          memoryPercent = 40 + of_int (hash smod 25),
                          storageUsedGB =
                            (case storage_used rpcNode of
                               Some u \<Rightarrow> (if u \<noteq> 0 then u / 1024 / 1024 / 1024 else 0)
                             | None \<Rightarrow> 0),
                          storageCapacityGB =
                            (case storage_committed rpcNode of
                               Some c \<Rightarrow> (if c \<noteq> 0 then c / 1024 / 1024 / 1024 else 1000)
                             | None \<Rightarrow> 1000),
                          responseTimeMs = 50 + of_int (hash smod 50)\<rparr>,
                       performance = performance,
                       gossip = \<lparr>peersConnected = 10 + of_int (hash smod 40),
                                 messagesReceived = 0, messagesSent = 0\<rparr>,
                       staking = \<lparr>commission = 0, delegatedStake = 0, activatedStake = 0,
                                  apy = 0, lastVote = 0, rootSlot = 0\<rparr>\<rparr>))"

text \<open>A row of the \<open>pnodes\<close> table, keyed by \<open>pubkey\<close>.\<close>

record db_row =
  r_pubkey :: js_string
  r_ip :: js_string
  r_port :: int
  r_version :: js_string
  r_status :: status
  r_uptime :: rat
  r_last_seen :: int
  r_location :: "node_location option"
  r_metrics :: metrics
  r_performance :: performance
  r_credits :: "int option"
  r_credits_rank :: "nat option"
  r_gossip :: gossip
  r_staking :: staking
  updated_at :: int

definition mapPNodeToRow :: "int \<Rightarrow> pnode \<Rightarrow> db_row" where
  "mapPNodeToRow now node =
     \<lparr>r_pubkey = pubkey node,
      r_ip = ip node,
      r_port = port node,
      r_version = version node,
      r_status = status node,
      r_uptime = uptime node,
      r_last_seen = lastSeen node,
      r_location = location node,
      r_metrics = metrics node,
      r_performance = performance node,
      r_credits = credits node,
      r_credits_rank = creditsRank node,
      r_gossip = gossip node,
      r_staking = staking node,
      updated_at = now\<rparr>"


text \<open>
  The store: \<open>upsert(rows, { onConflict: 'pubkey' })\<close> replaces the row with the same
  key or appends, and \<open>select('*').order('credits', { ascending: false })\<close> reads all
  rows by descending credits (rows without credits first, as the database orders
  \<open>NULL\<close>).
\<close>

fun upsert_row :: "db_row \<Rightarrow> db_row list \<Rightarrow> db_row list" where
  "upsert_row r [] = [r]"
| "upsert_row r (x # xs) = (if r_pubkey x = r_pubkey r then r # xs else x # upsert_row r xs)"

definition upsert :: "db_row list \<Rightarrow> db_row list \<Rightarrow> db_row list" where
  "upsert rows table = foldl (\<lambda>t r. upsert_row r t) table rows"


text \<open>
  What the outside world delivers to one run: the ledger, the pod list (\<open>None\<close>: the
  client failed or answered with something that is not an array), the batch
  geolocation service, and whether the store answers.
\<close>

record sources =
  fetchPodCredits :: "pod list option"
  getPodsWithStats :: "rpc_node list option"
  fetchBatchGeolocation :: "js_string list \<Rightarrow> js_string \<Rightarrow> geolocation option"
  store_ok :: bool

datatype effect =
  FetchPodCredits | GetPods | FetchBatchGeolocation "js_string list" | Upsert "db_row list"

text \<open>
  \<open>Array.from(new Map(sorted.map(item => [item.pubkey, item])).values())\<close>: one entry
  per key, at the position of the key's first occurrence, holding its last value.
\<close>

fun map_set :: "js_string \<Rightarrow> 'v \<Rightarrow> (js_string \<times> 'v) list \<Rightarrow> (js_string \<times> 'v) list" where
  "map_set k v [] = [(k, v)]"
| "map_set k v ((k', v') # m) = (if k' = k then (k, v) # m else (k', v') # map_set k v m)"

definition new_Map :: "(js_string \<times> 'v) list \<Rightarrow> (js_string \<times> 'v) list" where
  "new_Map entries = foldl (\<lambda>m (k, v). map_set k v m) [] entries"

text \<open>
  \<open>fetchFromRpcAndCache\<close> returns the array, the table after the run and the effects
  in order. \<open>creditMap.get(rpcNode.pubkey) || 0\<close> reads the raw \<open>pubkey\<close> of the pod.
\<close>

definition fetchFromRpcAndCache ::
  "int \<Rightarrow> sources \<Rightarrow> db_row list \<Rightarrow> pnode list \<times> db_row list \<times> effect list" where
  "fetchFromRpcAndCache now src table =
     (case getPodsWithStats src of
        None \<Rightarrow> ([], table, [FetchPodCredits, GetPods])
      | Some rpcPods \<Rightarrow>
          (let podCredits = fetchPodCredits src;
               ipsToFetch =
                 filter (\<lambda>ip. ip \<noteq> [] \<and> ip \<noteq> js ''127.0.0.1'' \<and> ip \<noteq> js ''localhost'')
                   (List.map_filter
                      (\<lambda>pod. Option.bind (rpc_address pod) (\<lambda>a. nth_opt (split 58 a) 0))
                      rpcPods);
               geoBatch = fetchBatchGeolocation src ipsToFetch;
               creditMap = (case podCredits of
                              Some pcs \<Rightarrow> new_Map (map (\<lambda>pc. (pod_id pc, pod_credits pc)) pcs)
                            | None \<Rightarrow> []);
               fetched = [FetchPodCredits, GetPods, FetchBatchGeolocation ipsToFetch]
           in case traverse
                     (\<lambda>(rpcNode, index).
                        (let ip = Option.bind (rpc_address rpcNode) (\<lambda>a. nth_opt (split 58 a) 0);
                             credits = (case Option.bind (rpc_pubkey rpcNode) (map_of creditMap) of
                                          Some c \<Rightarrow> c | None \<Rightarrow> 0);
                             geo = (if truthy ip then geoBatch (the ip) else None)
                         in mapRpcNodeToPNode now rpcNode credits index geo))
                     (indexed rpcPods) of
                Inl e \<Rightarrow> ([], table, fetched)
              | Inr mappedNodes \<Rightarrow>
                  (let sorted = sort_key (\<lambda>n. - credits_or_0 n) mappedNodes;
                       uniqueNodes = map snd (new_Map (map (\<lambda>item. (pubkey item, item)) sorted));
                       rows = map (mapPNodeToRow now) uniqueNodes
                   in if length rows > 0
                      then (sorted,
                            (if store_ok src then upsert rows table else table),
                            fetched @ [Upsert rows])
                      else (sorted, table, fetched))))"


section \<open>The credits-driven merge with cluster data (unnamed/part_002, of features/pnodes/services)\<close>

text \<open>
  \<open>transformPodToFull\<close> receives the ledger entry and, when the cluster knows the
  identity, the partial node built from the cluster entry.
\<close>

record partial_node =
  pn_pubkey :: "js_string option"
  pn_ip :: "js_string option"
  pn_port :: "int option"
  pn_version :: "js_string option"
  pn_location :: "node_location option"
  pn_staking :: "staking option"

definition transformPodToFull ::
  "int \<Rightarrow> pod \<Rightarrow> nat \<Rightarrow> partial_node option \<Rightarrow> js_error + pnode" where
  "transformPodToFull now pc index realData =
     (let credits = pod_credits pc;
          pubkey = pod_id pc;
          hash = hashPubkey pubkey;
          normalizedScore = min 100 ((of_int credits / MAX_CREDITS) * 100);
          performance = \<lparr>score = normalizedScore, tier = getTier normalizedScore\<rparr>;
          status = (if credits > 0 then online else offline);
          ip = or_default (Option.bind realData pn_ip) (generateDeterministicIP pubkey);
          port = (case Option.bind realData pn_port of
                    Some n \<Rightarrow> (if n \<noteq> 0 then n else 6000)
                  | None \<Rightarrow> 6000);
          version = or_default (Option.bind realData pn_version) (js ''0.7.0'');
          uptimeBase = (if credits > 0 then 70 + (score performance * 0.3) else 0);
          cpuBase = (if status = online then 20 + of_int (hash smod 30) else 0);
          memBase = (if status = online then 40 + of_int (hash smod 25) else 0);
          latencyBase = (if status = online
                         then 30 + (100 - score performance) + of_int (hash smod 20)
                         else 999);
          staking = (case Option.bind realData pn_staking of
                       Some st \<Rightarrow> st
                     | None \<Rightarrow>
                         \<lparr>commission = of_int (hash smod 10),
                          delegatedStake = of_int (credits * 100),
                          activatedStake = of_int (credits * 90),
                          apy = 5 + (score performance / 50),
                          lastVote = of_int now - (100 - score performance) * 1000,
                          rootSlot = of_int (85000000 + int index)\<rparr>)
      in case ((case Option.bind realData pn_location of
                  Some l \<Rightarrow> Inr l
                | None \<Rightarrow> getNodeLocation pubkey (int index)),
               nth_opt [1000, 2000, 4000, 8000] ((hash + int index) smod 4)) of
           (Inr loc, Some capacity) \<Rightarrow>
             Inr \<lparr>node_id = js ''pnode_'' @ toString (int index),
                  pubkey = pubkey,
                  ip = ip,
                  port = port,
                  version = version,
                  status = status,
                  uptime = uptimeBase,
                  lastSeen = now,
                  location = Some loc,
                  credits = Some credits,
                  creditsRank = Some (index + 1),
                  metrics = \<lparr>cpuPercent = cpuBase, memoryPercent = memBase,
                             storageUsedGB = 100 + of_int (hash smod 400),
                             storageCapacityGB = capacity,
                             responseTimeMs = latencyBase\<rparr>,
                  performance = performance,
                  gossip = \<lparr>peersConnected =
                               (if status = online then 10 + of_int (hash smod 40) else 0),
                            messagesReceived = of_int (credits * 10),
                            messagesSent = of_int (credits * 8)\<rparr>,
                  staking = staking\<rparr>
         | (Inl e, _) \<Rightarrow> Inl e
         | (_, None) \<Rightarrow> Inl TypeError)"

text \<open>
  \<open>transformClusterNodeToFull\<close>; hashing an absent \<open>pubkey\<close> raises a \<open>TypeError\<close>.
  A gossip port that does not parse is \<open>NaN\<close> in the source; the node record has no
  \<open>NaN\<close> and the model reports it as an error (the one caller passes no gossip
  address, so that the port is 8899).
\<close>

definition transformClusterNodeToFull ::
  "int \<Rightarrow> cluster_node \<Rightarrow> nat \<Rightarrow> partial_node option \<Rightarrow> js_error + pnode" where
  "transformClusterNodeToFull now node index realData =
     (case cn_pubkey node of
        None \<Rightarrow> Inl TypeError
      | Some pk \<Rightarrow>
          (let pubkey = pk;
               hash = hashPubkey pubkey;
               ip = or_default
                      (or_else (Option.bind (cn_gossip node) (\<lambda>g. nth_opt (split 58 g) 0))
                               (Option.bind (cn_rpc node) (\<lambda>r. nth_opt (split 58 r) 0)))
                      (generateDeterministicIP pubkey);
               gossipPort = or_default (Option.bind (cn_gossip node) (\<lambda>g. nth_opt (split 58 g) 1))
                              (js ''8899'')
           in case (case Option.bind realData pn_location of
                      Some l \<Rightarrow> Inr l
                    | None \<Rightarrow> getNodeLocation pubkey (int index)) of
                Inl e \<Rightarrow> Inl e
              | Inr loc \<Rightarrow>
                  (case parseInt (Some gossipPort) of
                     None \<Rightarrow> Inl TypeError
                   | Some portNumber \<Rightarrow>
                       Inr \<lparr>node_id = js ''pnode_'' @ toString (int index),
                            pubkey = pubkey,
                            ip = ip,
                            port = portNumber,
                            version = or_default (cn_version node) (js ''0.7.0''),
                            status = online,
                            uptime = 80 + of_int (hash smod 20),
                            lastSeen = now,
                            location = Some loc,
                            credits = None,
                            creditsRank = None,
                            metrics = \<lparr>cpuPercent = 20 + of_int (hash smod 30),
                                       memoryPercent = 40 + of_int (hash smod 25),
                                       storageUsedGB = 100 + of_int (hash smod 400),
                                       storageCapacityGB = 1000,
                                       responseTimeMs = 50 + of_int (hash smod 50)\<rparr>,
                            performance = \<lparr>score = 60 + of_int (hash smod 40),
                                           tier = getTier (60 + of_int (hash smod 40))\<rparr>,
                            gossip = \<lparr>peersConnected = 10 + of_int (hash smod 40),
                                      messagesReceived = 10000 + of_int (hash smod 50000),
                                      messagesSent = 8000 + of_int (hash smod 40000)\<rparr>,
                            staking =
                              (case Option.bind realData pn_staking of
                                 Some st \<Rightarrow> st
                               | None \<Rightarrow>
                                   \<lparr>commission = of_int (hash smod 10),
                                    delegatedStake = 10000 + of_int (hash smod 100000),
                                    activatedStake = 9000 + of_int (hash smod 90000),
                                    apy = 5 + of_int (hash smod 30) / 10,
                                    lastVote = of_int now - of_int (hash smod 10000),
                                    rootSlot = of_int (85000000 + int index)\<rparr>)\<rparr>)))"

text \<open>
  \<open>getClusterNodes\<close> of this module reads the cache table first (\<open>cache\<close> is what
  the read gave; \<open>None\<close>: an error or an exception) and returns its rows when there
  are any. Otherwise it merges on the client: \<open>mergedData\<close> is the map that
  \<open>getMergedNodeData\<close> built from the cluster list (keyed by identity, in insertion
  order). With a ledger the output is one node per ledger entry; without one, one
  node per cluster identity. \<open>realData!.location = ...\<close> on an identity the cluster
  does not know raises a \<open>TypeError\<close>, which this function does not catch.
\<close>

definition mapSupabaseToPNode :: "db_row \<Rightarrow> pnode" where
  "mapSupabaseToPNode row =
     \<lparr>node_id = js ''pnode_'' @ toString (case r_credits_rank row of
                                            Some r \<Rightarrow> int r - 1
                                          | None \<Rightarrow> - 1),
      pubkey = r_pubkey row,
      ip = r_ip row,
      port = r_port row,
      version = r_version row,
      status = r_status row,
      uptime = r_uptime row,
      lastSeen = r_last_seen row,
      location = r_location row,
      credits = r_credits row,
      creditsRank = r_credits_rank row,
      metrics = r_metrics row,
      performance = r_performance row,
      gossip = r_gossip row,
      staking = r_staking row\<rparr>"

definition getClusterNodes_client ::
  "int \<Rightarrow> db_row list option \<Rightarrow> pod list option \<Rightarrow> (js_string \<times> partial_node) list \<Rightarrow>
   (js_string list \<Rightarrow> js_string \<Rightarrow> geolocation option) \<Rightarrow> js_error + pnode list" where
  "getClusterNodes_client now cache podCredits mergedData geoService =
     (if (case cache of Some rows \<Rightarrow> length rows > 0 | None \<Rightarrow> False)
      then Inr (map mapSupabaseToPNode (the cache))
      else
     (case podCredits of
        None \<Rightarrow>
          traverse (\<lambda>(node, i).
                      transformClusterNodeToFull now
                        \<lparr>cn_pubkey = pn_pubkey node, cn_nodePubkey = None, cn_gossip = None,
                         cn_rpc = None, cn_version = None, cn_delinquent = False\<rparr>
                        i (Some node))
            (indexed (map snd mergedData))
      | Some pods_credits \<Rightarrow>
          (let ipsToFetch =
                 filter (\<lambda>ip. ip \<noteq> [])
                   (List.map_filter
                      (\<lambda>pc. Option.bind (map_of mergedData (pod_id pc)) pn_ip) pods_credits);
               geoBatch = geoService ipsToFetch
           in traverse
                (\<lambda>(pc, index).
                   (let realData = map_of mergedData (pod_id pc);
                        ip = or_default (Option.bind realData pn_ip)
                               (generateDeterministicIP (pod_id pc))
                    in case geoBatch ip of
                         Some geo \<Rightarrow>
                           (if geo_success geo
                            then (case realData of
                                    None \<Rightarrow> Inl TypeError
                                  | Some rd \<Rightarrow>
                                      transformPodToFull now pc index
                                        (Some (rd\<lparr>pn_location := Some
                                           \<lparr>country = or_default (geo_country geo) (js ''Unknown''),
                                            countryCode = or_default (geo_countryCode geo) (js ''UN''),
                                            city = or_default (geo_city geo) (js ''Unknown''),
                                            lat = num_or (geo_lat geo) 0,
                                            lng = num_or (geo_lon geo) 0,
                                            datacenter =
                                              Some (or_default (geo_org geo) (js ''Unknown'')),
                                            asn = Some (or_default
                                                    (Option.bind (geo_as geo)
                                                       (\<lambda>a. nth_opt (split 32 a) 0))
                                                    (js ''Unknown''))\<rparr>\<rparr>)))
                            else transformPodToFull now pc index realData)
                       | None \<Rightarrow> transformPodToFull now pc index realData))
                (indexed pods_credits))))"

section \<open>The metric query surface (app/api/pnode-data/route.ts)\<close>

text \<open>
  A request carries the \<open>type\<close> selector and the \<open>nodeId\<close> parameter
  (\<open>searchParams.get\<close> gives \<open>null\<close> for an absent one). \<open>run t\<close> is the outcome of
  awaiting the metric function that the \<open>case\<close> for \<open>t\<close> calls on this request:
  its data, or the message of what it threw (\<open>None\<close>: a thrown value without a
  message).
\<close>

record request =
  q_type :: "js_string option"
  q_nodeId :: "js_string option"

datatype 'd body = Data 'd | ErrorBody js_string

record 'd response =
  http_status :: nat
  http_body :: "'d body"

definition metric_types :: "js_string list" where
  "metric_types = map js
     [ ''network-stats'', ''network-tps'', ''network-events'', ''performance-history'',
       ''gossip-health'', ''storage-distribution'', ''epoch-info'', ''epoch-history'',
       ''staking-stats'', ''commission-history'', ''slashing-events'', ''exabyte-projection'',
       ''decentralization-metrics'', ''version-distribution'', ''health-score-breakdown'',
       ''trend-data'', ''x-score'', ''peer-rankings'', ''superminority-info'',
       ''censorship-resistance'' ]"

text \<open>
  The body of the \<open>try\<close>: \<open>Inl\<close> is a thrown error, \<open>Inr None\<close> the \<open>default\<close> case
  (which returns the 400 answer at once), \<open>Inr (Some d)\<close> the data of a known type.
\<close>

definition dispatch ::
  "(js_string \<Rightarrow> js_string option + 'd) \<Rightarrow> request \<Rightarrow> js_string option + 'd option" where
  "dispatch run req =
     (case q_type req of
        None \<Rightarrow> Inr None
      | Some t \<Rightarrow>
          (if t = js ''commission-history''
           then (if \<not> truthy (q_nodeId req) then Inl (Some (js ''nodeId required''))
                 else map_sum id Some (run t))
           else if t \<in> set metric_types then map_sum id Some (run t)
           else Inr None))"

definition GET :: "(js_string \<Rightarrow> js_string option + 'd) \<Rightarrow> request \<Rightarrow> 'd response" where
  "GET run req =
     (case dispatch run req of
        Inr (Some d) \<Rightarrow> \<lparr>http_status = 200, http_body = Data d\<rparr>
      | Inr None \<Rightarrow> \<lparr>http_status = 400, http_body = ErrorBody (js ''Invalid type param'')\<rparr>
      | Inl message \<Rightarrow>
          \<lparr>http_status = 500,
           http_body = ErrorBody (or_default message (js ''Internal Server Error''))\<rparr>)"

section \<open>Scenarios\<close>

text \<open>
  Two pods that the RPC lists in the order X, Y, both seen at the epoch, and two
  ledgers: one that credits only Y, and one that also credits an identity Z which
  the RPC does not list.
\<close>

definition rpc_pod :: "string \<Rightarrow> rpc_node" where
  "rpc_pod name =
     \<lparr>rpc_pubkey = Some (js name), rpc_address = None, rpc_port = None, rpc_version = None,
      last_seen_timestamp = Some 0, rpc_uptime = None, storage_used = None,
      storage_committed = None\<rparr>"

definition no_geolocation :: "js_string list \<Rightarrow> js_string \<Rightarrow> geolocation option" where
  "no_geolocation ips addr = None"

definition src_Y_credited :: sources where
  "src_Y_credited =
     \<lparr>fetchPodCredits = Some [\<lparr>pod_credits = 100, pod_id = js ''Y''\<rparr>],
      getPodsWithStats = Some [rpc_pod ''X'', rpc_pod ''Y''],
      fetchBatchGeolocation = no_geolocation,
      store_ok = True\<rparr>"

text \<open>The same pod list, with a third pod W that carries no last-seen timestamp.\<close>

definition src_W_unseen :: sources where
  "src_W_unseen =
     \<lparr>fetchPodCredits = Some [\<lparr>pod_credits = 100, pod_id = js ''Y''\<rparr>],
      getPodsWithStats =
        Some [rpc_pod ''X'', rpc_pod ''Y'', (rpc_pod ''W'')\<lparr>last_seen_timestamp := None\<rparr>],
      fetchBatchGeolocation = no_geolocation,
      store_ok = True\<rparr>"

definition ledger_Y_Z :: "pod list" where
  "ledger_Y_Z = [\<lparr>pod_credits = 100, pod_id = js ''Y''\<rparr>, \<lparr>pod_credits = 500, pod_id = js ''Z''\<rparr>]"

definition src_Z_unlisted :: sources where
  "src_Z_unlisted =
     \<lparr>fetchPodCredits = Some ledger_Y_Z,
      getPodsWithStats = Some [rpc_pod ''X'', rpc_pod ''Y''],
      fetchBatchGeolocation = no_geolocation,
      store_ok = True\<rparr>"


text \<open>
  A node with the given identity, credits and uptime, an empty disk of 1000 GB, no
  latency and no peers; and the ten nodes of the superminority scenario.
\<close>

definition sample_node :: "string \<Rightarrow> int \<Rightarrow> rat \<Rightarrow> pnode" where
  "sample_node name c up =
     \<lparr>node_id = js name, pubkey = js name, ip = js ''10.0.0.1'', port = 6000,
      version = js ''0.7.0'', status = online, uptime = up, lastSeen = 0, location = None,
      credits = Some c, creditsRank = None,
      metrics = \<lparr>cpuPercent = 0, memoryPercent = 0, storageUsedGB = 0,
                 storageCapacityGB = 1000, responseTimeMs = 0\<rparr>,
      performance = \<lparr>score = 0, tier = poor\<rparr>,
      gossip = \<lparr>peersConnected = 0, messagesReceived = 0, messagesSent = 0\<rparr>,
      staking = \<lparr>commission = 0, delegatedStake = 0, activatedStake = 0, apy = 0,
                 lastVote = 0, rootSlot = 0\<rparr>\<rparr>"

definition ten_nodes :: "pnode list" where
  "ten_nodes =
     [sample_node ''node1'' 500 100, sample_node ''node2'' 400 100,
      sample_node ''node3'' 300 100, sample_node ''node4'' 200 100,
      sample_node ''node5'' 100 100, sample_node ''node6'' 50 100,
      sample_node ''node7'' 50 100, sample_node ''node8'' 50 100,
      sample_node ''node9'' 25 100, sample_node ''node10'' 25 100]"

text \<open>Metric functions that always succeed, and that always fail with a message.\<close>

definition run_ok :: "js_string \<Rightarrow> js_string option + nat" where
  "run_ok t = Inr 0"

definition run_failing :: "js_string \<Rightarrow> js_string option + nat" where
  "run_failing t = Inl (Some (js ''connect ECONNREFUSED''))"

section \<open>Properties of the fallback generator\<close>

lemma length_NODE_LOCATIONS: "length NODE_LOCATIONS = 30"
  by (simp add: NODE_LOCATIONS_def)

lemma length_DATACENTERS: "length DATACENTERS = 19"
  by (simp add: DATACENTERS_def)

lemma length_ASNS: "length ASNS = 8"
  by (simp add: ASNS_def)

lemma unat_digit: "d < 10 \<Longrightarrow> unat (of_nat (48 + d) :: 16 word) = 48 + d"
  unfolding unat_of_nat by simp

lemma digits_are_digits: "set (digits n) \<subseteq> {c. 48 \<le> unat c \<and> unat c \<le> 57}"
proof (induction n rule: digits.induct)
  case (1 n)
  show ?case
  proof (cases "n < 10")
    case True
    then have "digits n = [of_nat (48 + n)]"
      by (subst digits.simps) simp
    with True unat_digit [of n] show ?thesis
      by simp
  next
    case False
    then have eq: "digits n = digits (n div 10) @ [of_nat (48 + n mod 10)]"
      by (subst digits.simps) simp
    have "unat (of_nat (48 + n mod 10) :: 16 word) = 48 + n mod 10"
      by (rule unat_digit) simp
    moreover have "n mod 10 < 10" by simp
    ultimately have "48 \<le> unat (of_nat (48 + n mod 10) :: 16 word) \<and>
        unat (of_nat (48 + n mod 10) :: 16 word) \<le> 57"
      by linarith
    with False 1 eq show ?thesis
      by simp
  qed
qed

lemma digits_nonempty: "digits n \<noteq> []"
  by (subst digits.simps) simp

lemma toString_nonneg_digits:
  "0 \<le> n \<Longrightarrow> toString n \<noteq> [] \<and> (\<forall>c \<in> set (toString n). 48 \<le> unat c \<and> unat c \<le> 57)"
  using digits_are_digits [of "nat n"] digits_nonempty [of "nat n"]
  by (auto simp: toString_def)

lemma dot_notin_toString: "0 \<le> n \<Longrightarrow> 46 \<notin> set (toString n)"
  using toString_nonneg_digits [of n] by auto

lemma split_no_sep: "sep \<notin> set xs \<Longrightarrow> split sep xs = [xs]"
  by (induction xs) auto

lemma split_append_sep:
  "sep \<notin> set xs \<Longrightarrow> split sep (xs @ sep # ys) = xs # split sep ys"
  by (induction xs) auto

lemma hash_fold_nonneg:
  "0 \<le> acc \<Longrightarrow>
   0 \<le> foldl (\<lambda>acc (char :: 16 word, i :: nat). acc + int (unat char) * (int i + 1)) acc ps"
  by (induction ps arbitrary: acc) (auto simp: case_prod_beta)

lemma hashPubkey_nonneg: "0 \<le> hashPubkey pk"
  unfolding hashPubkey_def by (rule hash_fold_nonneg) simp

lemma js_dot: "js ''.'' = [46]"
  by (simp add: js_def)

lemma split_ip:
  assumes "0 \<le> a" "0 \<le> b" "0 \<le> c" "0 \<le> d"
  shows "split 46 (toString a @ js ''.'' @ toString b @ js ''.'' @ toString c @ js ''.'' @ toString d)
         = [toString a, toString b, toString c, toString d]"
  using assms
  by (simp add: js_dot split_append_sep split_no_sep dot_notin_toString)

lemma getNodeLocation_Inr:
  assumes "0 \<le> index"
  shows "getNodeLocation pk index =
     Inr (let hash = hashPubkey pk;
              location = NODE_LOCATIONS ! nat ((hash + index) mod 30);
              asnData = ASNS ! nat ((hash * 13 + index) mod 8)
          in \<lparr>country = p_country location, countryCode = p_countryCode location,
              city = p_city location, lat = p_lat location, lng = p_lng location,
              datacenter = Some (DATACENTERS ! nat ((hash * 7 + index) mod 19)),
              asn = Some (a_asn asnData)\<rparr>)"
proof -
  have h: "0 \<le> hashPubkey pk"
    by (rule hashPubkey_nonneg)
  with assms have nn: "0 \<le> hashPubkey pk + index" "0 \<le> hashPubkey pk * 7 + index"
    "0 \<le> hashPubkey pk * 13 + index"
    by simp_all
  show ?thesis
    using nn
    by (simp add: getNodeLocation_def Let_def nth_opt_def length_NODE_LOCATIONS
        length_DATACENTERS length_ASNS smod_mod_positive)
qed

lemma digit_word: "d < 10 \<Longrightarrow> is_digit (of_nat (48 + d))"
proof -
  assume d: "d < 10"
  have u: "unat (of_nat (48 + d) :: 16 word) = 48 + d" using d by (rule unat_digit)
  have "unat (48 :: 16 word) \<le> unat (of_nat (48 + d) :: 16 word)" using u by simp
  moreover have "unat (of_nat (48 + d) :: 16 word) \<le> unat (57 :: 16 word)" using u d by simp
  ultimately show ?thesis unfolding is_digit_def by (simp only: word_le_nat_alt)
qed

lemma decimal_value_snoc: "decimal_value (xs @ [c]) = decimal_value xs * 10 + (unat c - 48)"
  by (simp add: decimal_value_def)

lemma digits_props: "list_all is_digit (digits n) \<and> decimal_value (digits n) = n"
proof (induction n rule: digits.induct)
  case (1 n)
  show ?case
  proof (cases "n < 10")
    case True
    then have e: "digits n = [of_nat (48 + n)]"
      by (subst digits.simps) simp
    show ?thesis using True unat_digit [of n] digit_word [of n]
      unfolding e by (simp add: decimal_value_def)
  next
    case False
    then have e: "digits n = digits (n div 10) @ [of_nat (48 + n mod 10)]"
      by (subst digits.simps) simp
    have m: "n mod 10 < 10" by simp
    show ?thesis using False 1 unat_digit [OF m] digit_word [OF m]
      unfolding e by (simp add: decimal_value_snoc)
  qed
qed

lemma digits_length: "n < 1000 \<Longrightarrow> length (digits n) \<le> 3"
proof -
  assume n: "n < 1000"
  have a: "m < 10 \<Longrightarrow> length (digits m) = 1" for m
    by (subst digits.simps) simp
  have b: "m < 100 \<Longrightarrow> length (digits m) \<le> 2" for m
    by (subst digits.simps) (auto simp: a)
  show ?thesis using n b [of "n div 10"]
    by (subst digits.simps) (auto simp: a)
qed

lemma is_octet_toString:
  "int lo \<le> n \<Longrightarrow> n \<le> int hi \<Longrightarrow> hi < 1000 \<Longrightarrow> is_octet lo hi (toString n)"
  using digits_props [of "nat n"] digits_length [of "nat n"] digits_nonempty [of "nat n"]
  by (auto simp: is_octet_def toString_def)

text \<open>
  Claim C10. For every identity string and every non-negative index, the hash is
  non-negative, the three table reads of \<open>getNodeLocation\<close> are in range (it returns
  an object whose place, datacenter and ASN are entries of the tables, and raises
  nothing), and \<open>generateDeterministicIP\<close> yields a dotted quad whose first octet is
  in \<open>[50, 249]\<close> and whose other octets are in \<open>[0, 255]\<close>.
\<close>

theorem fallback_generator_total:
  assumes "0 \<le> index"
  shows "0 \<le> hashPubkey pk
    \<and> (hashPubkey pk + index) smod int (length NODE_LOCATIONS) \<in> {0 ..< int (length NODE_LOCATIONS)}
    \<and> (hashPubkey pk * 7 + index) smod int (length DATACENTERS) \<in> {0 ..< int (length DATACENTERS)}
    \<and> (hashPubkey pk * 13 + index) smod int (length ASNS) \<in> {0 ..< int (length ASNS)}
    \<and> (\<exists>loc. getNodeLocation pk index = Inr loc
          \<and> (\<exists>p \<in> set NODE_LOCATIONS. country loc = p_country p \<and> city loc = p_city p)
          \<and> (\<exists>dc \<in> set DATACENTERS. datacenter loc = Some dc)
          \<and> (\<exists>a \<in> set ASNS. asn loc = Some (a_asn a)))
    \<and> is_ipv4 50 249 (generateDeterministicIP pk)"
proof -
  let ?h = "hashPubkey pk"
  have h: "0 \<le> ?h" by (rule hashPubkey_nonneg)
  have loc: "\<exists>loc. getNodeLocation pk index = Inr loc
          \<and> (\<exists>p \<in> set NODE_LOCATIONS. country loc = p_country p \<and> city loc = p_city p)
          \<and> (\<exists>dc \<in> set DATACENTERS. datacenter loc = Some dc)
          \<and> (\<exists>a \<in> set ASNS. asn loc = Some (a_asn a))"
  proof -
    have i1: "nat ((?h + index) mod 30) < length NODE_LOCATIONS"
      by (simp add: length_NODE_LOCATIONS nat_less_iff)
    have i2: "nat ((?h * 7 + index) mod 19) < length DATACENTERS"
      by (simp add: length_DATACENTERS nat_less_iff)
    have i3: "nat ((?h * 13 + index) mod 8) < length ASNS"
      by (simp add: length_ASNS nat_less_iff)
    show ?thesis
      unfolding getNodeLocation_Inr [OF assms] Let_def
      using nth_mem [OF i1] nth_mem [OF i2] nth_mem [OF i3]
      by (intro exI conjI) (rule refl, auto)
  qed
  have ipv4: "is_ipv4 50 249 (generateDeterministicIP pk)"
  proof -
    have nn: "0 \<le> ?h smod 200 + 50" "0 \<le> (?h * 7) smod 256" "0 \<le> (?h * 13) smod 256"
      "0 \<le> (?h * 19) smod 256"
      using h by (simp_all add: smod_mod_positive)
    have o1: "is_octet 50 249 (toString (?h smod 200 + 50))"
      using h by (intro is_octet_toString) (simp_all add: smod_mod_positive)
    have o2: "is_octet 0 255 (toString ((?h * 7) smod 256))"
      using h by (intro is_octet_toString) (simp_all add: smod_mod_positive)
    have o3: "is_octet 0 255 (toString ((?h * 13) smod 256))"
      using h by (intro is_octet_toString) (simp_all add: smod_mod_positive)
    have o4: "is_octet 0 255 (toString ((?h * 19) smod 256))"
      using h by (intro is_octet_toString) (simp_all add: smod_mod_positive)
    show ?thesis
      unfolding is_ipv4_def generateDeterministicIP_def Let_def split_ip [OF nn]
      using o1 o2 o3 o4 by simp
  qed
  have idx: "(?h + index) smod int (length NODE_LOCATIONS) \<in> {0 ..< int (length NODE_LOCATIONS)}"
    "(?h * 7 + index) smod int (length DATACENTERS) \<in> {0 ..< int (length DATACENTERS)}"
    "(?h * 13 + index) smod int (length ASNS) \<in> {0 ..< int (length ASNS)}"
    using h assms
    by (simp_all add: smod_mod_positive length_NODE_LOCATIONS length_DATACENTERS length_ASNS)
  from h idx loc ipv4 show ?thesis by blast
qed

theorem fallback_generator_total_witness:
  "(0::int) \<le> 0
    \<and> 0 \<le> hashPubkey (js ''abc'')
    \<and> (\<exists>loc. getNodeLocation (js ''abc'') 0 = Inr loc
          \<and> (\<exists>p \<in> set NODE_LOCATIONS. country loc = p_country p \<and> city loc = p_city p)
          \<and> (\<exists>dc \<in> set DATACENTERS. datacenter loc = Some dc)
          \<and> (\<exists>a \<in> set ASNS. asn loc = Some (a_asn a)))
    \<and> is_ipv4 50 249 (generateDeterministicIP (js ''abc''))
    \<and> generateDeterministicIP (js ''abc'') = js ''240.34.246.202''"
proof -
  have "generateDeterministicIP (js ''abc'') = js ''240.34.246.202''"
    by code_simp
  then show ?thesis
    using fallback_generator_total [of 0 "js ''abc''"] by simp
qed

section \<open>Properties of the merges\<close>

lemma capacity_read:
  "0 \<le> h \<Longrightarrow> nth_opt [1000, 2000, 4000, 8000 :: rat] ((h + int index) smod 4)
     = Some ([1000, 2000, 4000, 8000] ! nat ((h + int index) mod 4))"
  by (simp add: nth_opt_def smod_mod_positive)

lemma transformPodToNode_Inr:
  "\<exists>n. transformPodToNode now pod index tn = Inr n
     \<and> pubkey n = pod_id pod
     \<and> credits n = Some (pod_credits pod)
     \<and> creditsRank n = Some (index + 1)
     \<and> status n = (if pod_credits pod > 5000 then online
                   else if pod_credits pod > 0 then degraded else offline)
     \<and> ip n = generateDeterministicIP (pod_id pod)
     \<and> map_sum id Some (getNodeLocation (pod_id pod) (int index)) = Inr (location n)"
  unfolding transformPodToNode_def Let_def
  by (simp add: getNodeLocation_Inr capacity_read hashPubkey_nonneg Let_def)

lemma traverse_list_all2:
  "\<forall>x \<in> set xs. \<exists>y. f x = Inr y \<and> P x y \<Longrightarrow> \<exists>ys. traverse f xs = Inr ys \<and> list_all2 P xs ys"
proof (induction xs)
  case Nil
  then show ?case by simp
next
  case (Cons x xs)
  then obtain y where y: "f x = Inr y" "P x y" by auto
  from Cons obtain ys where ys: "traverse f xs = Inr ys" "list_all2 P xs ys" by auto
  from y ys show ?case by simp
qed

lemma indexed_Nil [simp]: "indexed [] = []"
  by (simp add: indexed_def)

lemma map_fst_indexed: "map fst (indexed xs) = xs"
  by (simp add: indexed_def)

lemma map_snd_indexed: "map snd (indexed xs) = [0..<length xs]"
  by (simp add: indexed_def)

lemma length_indexed [simp]: "length (indexed xs) = length xs"
  by (simp add: indexed_def)

lemma map_of_fst_indexed: "map (\<lambda>x. g (fst x)) (indexed xs) = map g xs"
proof -
  have "map (\<lambda>x. g (fst x)) (indexed xs) = map g (map fst (indexed xs))"
    by (simp add: comp_def)
  then show ?thesis by (simp only: map_fst_indexed)
qed

lemma map_of_snd_indexed: "map (\<lambda>x. g (snd x)) (indexed xs) = map g [0..<length xs]"
proof -
  have "map (\<lambda>x. g (snd x)) (indexed xs) = map g (map snd (indexed xs))"
    by (simp add: comp_def)
  then show ?thesis by (simp only: map_snd_indexed)
qed

lemma list_all2_map_eq:
  "list_all2 (\<lambda>x y. g y = h x) xs ys \<Longrightarrow> map g ys = map h xs"
  by (induction xs ys rule: list_all2_induct) auto

text \<open>
  The credits-driven merge of lib/pnode-api.ts sorts first and ranks afterwards: its
  output lists the ledger by descending credits with the ranks \<open>1..N\<close> in order.
\<close>

lemma getClusterNodes_credits_path:
  assumes "pods \<noteq> []"
  shows "map pubkey (getClusterNodes now (Some pods) cd) = map pod_id (sort_key (\<lambda>p. - pod_credits p) pods)
    \<and> map credits (getClusterNodes now (Some pods) cd)
        = map (\<lambda>p. Some (pod_credits p)) (sort_key (\<lambda>p. - pod_credits p) pods)
    \<and> map creditsRank (getClusterNodes now (Some pods) cd) = map (\<lambda>i. Some (i + 1)) [0..<length pods]"
proof -
  let ?sorted = "sort_key (\<lambda>p. - pod_credits p) pods"
  let ?f = "\<lambda>(pod, index). transformPodToNode now pod index (length ?sorted)"
  let ?P = "\<lambda>(x :: pod \<times> nat) n. pubkey n = pod_id (fst x) \<and> credits n = Some (pod_credits (fst x))
     \<and> creditsRank n = Some (snd x + 1)"
  have "\<forall>x \<in> set (indexed ?sorted). \<exists>y. ?f x = Inr y \<and> ?P x y"
  proof
    fix x assume "x \<in> set (indexed ?sorted)"
    obtain pod index where x: "x = (pod, index)" by (cases x)
    from transformPodToNode_Inr [of now pod index "length ?sorted"]
    show "\<exists>y. ?f x = Inr y \<and> ?P x y" unfolding x by auto
  qed
  from traverse_list_all2 [OF this]
  obtain ys where ys: "traverse ?f (indexed ?sorted) = Inr ys" "list_all2 ?P (indexed ?sorted) ys"
    by blast
  have out: "getClusterNodes now (Some pods) cd = ys"
    using assms ys(1) by (simp add: getClusterNodes_def Let_def)
  have a: "map pubkey ys = map (\<lambda>x. pod_id (fst x)) (indexed ?sorted)"
    by (rule list_all2_map_eq) (rule list_all2_mono [OF ys(2)], auto)
  have b: "map credits ys = map (\<lambda>x. Some (pod_credits (fst x))) (indexed ?sorted)"
    by (rule list_all2_map_eq) (rule list_all2_mono [OF ys(2)], auto)
  have c: "map creditsRank ys = map (\<lambda>x. Some (snd x + 1)) (indexed ?sorted)"
    by (rule list_all2_map_eq) (rule list_all2_mono [OF ys(2)], auto)
  have a': "map (\<lambda>x. pod_id (fst x)) (indexed ?sorted) = map pod_id ?sorted"
    by (rule map_of_fst_indexed)
  have b': "map (\<lambda>x. Some (pod_credits (fst x))) (indexed ?sorted) = map (\<lambda>p. Some (pod_credits p)) ?sorted"
    by (rule map_of_fst_indexed)
  have c': "map (\<lambda>x. Some (snd x + 1)) (indexed ?sorted) = map (\<lambda>i. Some (i + 1)) [0..<length pods]"
    using map_of_snd_indexed [of "\<lambda>i. Some (i + 1)" ?sorted] by simp
  show ?thesis unfolding out a b c a' b' c' by simp
qed


lemma getClusterNodes_ranks_dense_descending:
  assumes "pods \<noteq> []"
  shows "length (getClusterNodes now (Some pods) cd) = length pods
    \<and> map creditsRank (getClusterNodes now (Some pods) cd) = map Some [1..<length pods + 1]
    \<and> sorted_wrt (\<lambda>a b. a \<ge> b) (map credits_or_0 (getClusterNodes now (Some pods) cd))"
proof -
  let ?out = "getClusterNodes now (Some pods) cd"
  let ?sorted = "sort_key (\<lambda>p. - pod_credits p) pods"
  note path = getClusterNodes_credits_path [OF assms, of now cd]
  from path have "length (map creditsRank ?out) = length (map (\<lambda>i. Some (i + 1)) [0..<length pods])"
    by simp
  then have len: "length ?out = length pods"
    by simp
  have "map (\<lambda>i. Some (i + 1)) [0..<length pods] = map Some (map Suc [0..<length pods])"
    by simp
  also have "\<dots> = map Some [1..<length pods + 1]"
    by (simp only: map_Suc_upt) simp
  finally have ranks: "map creditsRank ?out = map Some [1..<length pods + 1]"
    using path by simp
  have "map credits_or_0 ?out = map (\<lambda>c. case c of Some v \<Rightarrow> v | None \<Rightarrow> 0) (map credits ?out)"
    by (simp add: credits_or_0_def comp_def)
  also have "\<dots> = map pod_credits ?sorted"
    using path by (simp add: comp_def)
  finally have cr: "map credits_or_0 ?out = map pod_credits ?sorted" .
  have "sorted (map (\<lambda>p. - pod_credits p) ?sorted)"
    by (rule sorted_sort_key)
  then have "sorted_wrt (\<lambda>a b. a \<ge> b) (map pod_credits ?sorted)"
    by (simp add: sorted_wrt_map)
  with len ranks cr show ?thesis
    by simp
qed

lemma transformPodToFull_Inr:
  "\<exists>n. transformPodToFull now pod index realData = Inr n
     \<and> pubkey n = pod_id pod
     \<and> credits n = Some (pod_credits pod)
     \<and> creditsRank n = Some (index + 1)
     \<and> status n = (if pod_credits pod > 0 then online else offline)"
  unfolding transformPodToFull_def Let_def
  by (simp add: getNodeLocation_Inr capacity_read hashPubkey_nonneg Let_def split: option.splits)

lemma mapRpcNodeToPNode_Inr:
  assumes "last_seen_timestamp p = Some t" and "\<bar>t * 1000\<bar> \<le> 8640000000000000"
  shows "\<exists>n. mapRpcNodeToPNode now p c i g = Inr n
     \<and> pubkey n = or_default (rpc_pubkey p) (js ''unknown-'' @ toString (int i))
     \<and> credits n = Some c
     \<and> creditsRank n = Some (i + 1)
     \<and> uptime n = num_or (rpc_uptime p) 0"
  using assms unfolding mapRpcNodeToPNode_def Let_def toISOString_def
  by (simp add: getNodeLocation_Inr Let_def split: option.splits)

lemma fetchFromRpcAndCache_nodes:
  assumes pods: "getPodsWithStats src = Some rpcPods"
    and ts: "\<forall>p \<in> set rpcPods. \<exists>t. last_seen_timestamp p = Some t \<and> \<bar>t * 1000\<bar> \<le> 8640000000000000"
  shows "\<exists>mapped. fst (fetchFromRpcAndCache now src table) = sort_key (\<lambda>n. - credits_or_0 n) mapped
     \<and> list_all2 (\<lambda>x n. pubkey n = or_default (rpc_pubkey (fst x)) (js ''unknown-'' @ toString (int (snd x)))
                        \<and> creditsRank n = Some (snd x + 1))
           (indexed rpcPods) mapped"
proof -
  let ?P = "\<lambda>(x :: rpc_node \<times> nat) n.
     pubkey n = or_default (rpc_pubkey (fst x)) (js ''unknown-'' @ toString (int (snd x)))
     \<and> creditsRank n = Some (snd x + 1)"
  let ?C = "\<lambda>rpcNode. (case Option.bind (rpc_pubkey rpcNode)
                (map_of (case fetchPodCredits src of
                           None \<Rightarrow> []
                         | Some pcs \<Rightarrow> new_Map (map (\<lambda>pc. (pod_id pc, pod_credits pc)) pcs))) of
              None \<Rightarrow> 0 | Some c \<Rightarrow> c)"
  let ?ips = "filter (\<lambda>ip. ip \<noteq> [] \<and> ip \<noteq> js ''127.0.0.1'' \<and> ip \<noteq> js ''localhost'')
                (List.map_filter (\<lambda>pod. Option.bind (rpc_address pod) (\<lambda>a. nth_opt (split 58 a) 0))
                   rpcPods)"
  let ?G = "\<lambda>rpcNode. (if truthy (Option.bind (rpc_address rpcNode) (\<lambda>a. nth_opt (split 58 a) 0))
              then fetchBatchGeolocation src ?ips
                     (the (Option.bind (rpc_address rpcNode) (\<lambda>a. nth_opt (split 58 a) 0)))
              else None)"
  let ?f = "\<lambda>(rpcNode, index). mapRpcNodeToPNode now rpcNode (?C rpcNode) index (?G rpcNode)"
  have "\<forall>x \<in> set (indexed rpcPods). \<exists>y. ?f x = Inr y \<and> ?P x y"
  proof
    fix x assume mem: "x \<in> set (indexed rpcPods)"
    obtain p i where x: "x = (p, i)" by (cases x)
    from mem have "p \<in> set rpcPods"
      unfolding x indexed_def by (auto dest: set_zip_leftD)
    with ts obtain t where "last_seen_timestamp p = Some t" "\<bar>t * 1000\<bar> \<le> 8640000000000000"
      by blast
    from mapRpcNodeToPNode_Inr [OF this, of now "?C p" i "?G p"]
    show "\<exists>y. ?f x = Inr y \<and> ?P x y" unfolding x by auto
  qed
  from traverse_list_all2 [OF this]
  obtain ys where ys: "traverse ?f (indexed rpcPods) = Inr ys" "list_all2 ?P (indexed rpcPods) ys"
    by blast
  have "fst (fetchFromRpcAndCache now src table) = sort_key (\<lambda>n. - credits_or_0 n) ys"
    unfolding fetchFromRpcAndCache_def pods Let_def
    by (simp add: ys(1) Let_def)
  with ys(2) show ?thesis by blast
qed


lemma getClusterNodes_client_ledger:
  assumes empty: "cache = None \<or> cache = Some []"
    and known: "\<forall>pc \<in> set ledger. map_of mergedData (pod_id pc) = None \<longrightarrow>
      (\<forall>ips g. geoService ips (generateDeterministicIP (pod_id pc)) = Some g \<longrightarrow> \<not> geo_success g)"
  shows "\<exists>out. getClusterNodes_client now cache (Some ledger) mergedData geoService = Inr out
     \<and> map pubkey out = map pod_id ledger"
proof -
  define ips where "ips = filter (\<lambda>ip. ip \<noteq> [])
                (List.map_filter (\<lambda>pc. Option.bind (map_of mergedData (pod_id pc)) pn_ip) ledger)"
  define loc where "loc = (\<lambda>geo :: geolocation. \<lparr>country = or_default (geo_country geo) (js ''Unknown''),
                      countryCode = or_default (geo_countryCode geo) (js ''UN''),
                      city = or_default (geo_city geo) (js ''Unknown''),
                      lat = num_or (geo_lat geo) 0,
                      lng = num_or (geo_lon geo) 0,
                      datacenter = Some (or_default (geo_org geo) (js ''Unknown'')),
                      asn = Some (or_default (Option.bind (geo_as geo) (\<lambda>a. nth_opt (split 32 a) 0))
                                    (js ''Unknown''))\<rparr>)"
  define f where "f = (\<lambda>(pc, index).
     (case geoService ips (or_default (Option.bind (map_of mergedData (pod_id pc)) pn_ip)
                               (generateDeterministicIP (pod_id pc))) of
        Some geo \<Rightarrow>
          (if geo_success geo
           then (case map_of mergedData (pod_id pc) of
                   None \<Rightarrow> Inl TypeError
                 | Some rd \<Rightarrow> transformPodToFull now pc index (Some (rd\<lparr>pn_location := Some (loc geo)\<rparr>)))
           else transformPodToFull now pc index (map_of mergedData (pod_id pc)))
      | None \<Rightarrow> transformPodToFull now pc index (map_of mergedData (pod_id pc))))"
  have run: "getClusterNodes_client now cache (Some ledger) mergedData geoService
      = traverse f (indexed ledger)"
    using empty unfolding getClusterNodes_client_def f_def ips_def loc_def Let_def by auto
  have each: "\<forall>x \<in> set (indexed ledger). \<exists>y. f x = Inr y \<and> pubkey y = pod_id (fst x)"
  proof
    fix x assume mem: "x \<in> set (indexed ledger)"
    obtain pc i where x: "x = (pc, i)" by (cases x)
    from mem have pc: "pc \<in> set ledger"
      unfolding x indexed_def by (auto dest: set_zip_leftD)
    define rd where "rd = map_of mergedData (pod_id pc)"
    define ip where "ip = or_default (Option.bind rd pn_ip) (generateDeterministicIP (pod_id pc))"
    have plain: "\<exists>y. transformPodToFull now pc i rd' = Inr y \<and> pubkey y = pod_id pc" for rd'
      using transformPodToFull_Inr [of now pc i rd'] by blast
    have fx: "f x = (case geoService ips ip of
        Some geo \<Rightarrow>
          (if geo_success geo
           then (case rd of
                   None \<Rightarrow> Inl TypeError
                 | Some r \<Rightarrow> transformPodToFull now pc i (Some (r\<lparr>pn_location := Some (loc geo)\<rparr>)))
           else transformPodToFull now pc i rd)
      | None \<Rightarrow> transformPodToFull now pc i rd)"
      unfolding f_def x rd_def ip_def by simp
    have "\<exists>y. f x = Inr y \<and> pubkey y = pod_id pc"
    proof (cases "geoService ips ip")
      case None
      with plain [of rd] show ?thesis unfolding fx by simp
    next
      case (Some geo)
      show ?thesis
      proof (cases "geo_success geo")
        case False
        with Some plain [of rd] show ?thesis unfolding fx by simp
      next
        case True
        show ?thesis
        proof (cases rd)
          case None
          then have "ip = generateDeterministicIP (pod_id pc)"
            unfolding ip_def by (simp add: or_default_def)
          with Some have "geoService ips (generateDeterministicIP (pod_id pc)) = Some geo"
            by simp
          moreover from None have "map_of mergedData (pod_id pc) = None"
            unfolding rd_def .
          ultimately show ?thesis using known pc True by blast
        next
          case (Some r)
          with \<open>geoService ips ip = Some geo\<close> True
            plain [of "Some (r\<lparr>pn_location := Some (loc geo)\<rparr>)"]
          show ?thesis unfolding fx by simp
        qed
      qed
    qed
    then show "\<exists>y. f x = Inr y \<and> pubkey y = pod_id (fst x)"
      unfolding x by simp
  qed
  from traverse_list_all2 [of "indexed ledger" f "\<lambda>x y. pubkey y = pod_id (fst x)", OF each]
  obtain ys where ys: "traverse f (indexed ledger) = Inr ys"
    "list_all2 (\<lambda>x y. pubkey y = pod_id (fst x)) (indexed ledger) ys"
    by blast
  have "map pubkey ys = map (\<lambda>x. pod_id (fst x)) (indexed ledger)"
    using ys(2) by (rule list_all2_map_eq)
  also have "\<dots> = map pod_id ledger"
    by (rule map_of_fst_indexed)
  finally show ?thesis using run ys(1) by simp
qed

lemma fetchFromRpcAndCache_identities:
  assumes pods: "getPodsWithStats src = Some rpcPods"
    and ts: "\<forall>p \<in> set rpcPods. \<exists>t. last_seen_timestamp p = Some t \<and> \<bar>t * 1000\<bar> \<le> 8640000000000000"
  shows "mset (map pubkey (fst (fetchFromRpcAndCache now src table)))
     = mset (map (\<lambda>x. or_default (rpc_pubkey (fst x)) (js ''unknown-'' @ toString (int (snd x))))
               (indexed rpcPods))"
proof -
  from fetchFromRpcAndCache_nodes [OF pods ts, of now table]
  obtain mapped where m: "fst (fetchFromRpcAndCache now src table) = sort_key (\<lambda>n. - credits_or_0 n) mapped"
    "list_all2 (\<lambda>x n. pubkey n = or_default (rpc_pubkey (fst x)) (js ''unknown-'' @ toString (int (snd x)))
                        \<and> creditsRank n = Some (snd x + 1)) (indexed rpcPods) mapped"
    by blast
  have "map pubkey mapped = map (\<lambda>x. or_default (rpc_pubkey (fst x)) (js ''unknown-'' @ toString (int (snd x)))) (indexed rpcPods)"
    by (rule list_all2_map_eq) (rule list_all2_mono [OF m(2)], auto)
  moreover have "mset (map pubkey (sort_key (\<lambda>n. - credits_or_0 n) mapped)) = mset (map pubkey mapped)"
    by simp
  ultimately show ?thesis unfolding m(1) by simp
qed


section \<open>The claims about the merge\<close>

lemma fetchFromRpcAndCache_Y_credited:
  "map (\<lambda>n. (pubkey n, credits n, creditsRank n)) (fst (fetchFromRpcAndCache 0 src_Y_credited []))
   = [(js ''Y'', Some 100, Some 2), (js ''X'', Some 0, Some 1)]"
  by code_simp

text \<open>
  Claim C1. The rank invariant fails in \<open>fetchFromRpcAndCache\<close>: the rank is the
  position in the RPC list, given before the array is sorted by credits. With the
  pods X, Y and a ledger that credits only Y, the returned array is Y (100 credits,
  rank 2), X (0 credits, rank 1): the ranks are not \<open>1, 2\<close> in array order and the
  credits grow with the rank.
\<close>

theorem fetchFromRpcAndCache_ranks_before_sorting:
  "map pubkey (fst (fetchFromRpcAndCache 0 src_Y_credited [])) = [js ''Y'', js ''X'']
   \<and> map credits (fst (fetchFromRpcAndCache 0 src_Y_credited [])) = [Some 100, Some 0]
   \<and> map creditsRank (fst (fetchFromRpcAndCache 0 src_Y_credited [])) = [Some 2, Some 1]"
proof -
  let ?out = "fst (fetchFromRpcAndCache 0 src_Y_credited [])"
  have "map pubkey ?out = map fst (map (\<lambda>n. (pubkey n, credits n, creditsRank n)) ?out)"
    "map credits ?out = map (fst \<circ> snd) (map (\<lambda>n. (pubkey n, credits n, creditsRank n)) ?out)"
    "map creditsRank ?out = map (snd \<circ> snd) (map (\<lambda>n. (pubkey n, credits n, creditsRank n)) ?out)"
    by (simp_all add: comp_def)
  then show ?thesis
    unfolding fetchFromRpcAndCache_Y_credited by simp
qed

text \<open>
  Claim C2, as stated, fails: Z is in the ledger and the merged output of
  \<open>fetchFromRpcAndCache\<close> has no node for it.
\<close>

theorem ledger_only_identity_dropped:
  "js ''Z'' \<in> set (map pod_id ledger_Y_Z)
   \<and> fetchPodCredits src_Z_unlisted = Some ledger_Y_Z
   \<and> js ''Z'' \<notin> set (map pubkey (fst (fetchFromRpcAndCache 0 src_Z_unlisted [])))"
  by code_simp

text \<open>
  A pod without a last-seen timestamp makes \<open>toISOString\<close> raise; the exception is
  caught and the whole merge answers with the empty array.
\<close>

lemma missing_timestamp_empties_merge:
  "fst (fetchFromRpcAndCache 0 src_W_unseen []) = []"
  by code_simp

text \<open>
  Claim C2, amended. Each merge is driven by one source. When every pod carries a
  valid last-seen timestamp, \<open>fetchFromRpcAndCache\<close> returns exactly one node per
  entry of the RPC pod list (a pod without \<open>pubkey\<close> is named \<open>unknown-<index>\<close>): the
  identities of the output are those of the pod list, each as often as it is listed,
  so an identity that only the ledger has gets no node. The client-side merge (when
  the cache table gave nothing) with a ledger returns exactly one node per ledger
  entry, in ledger order, provided the geolocation answer holds no successful record
  for the synthesized address of an identity unknown to the cluster; an identity that
  only the cluster has gets no node.
\<close>

theorem merge_follows_one_source:
  assumes "getPodsWithStats src = Some rpcPods"
    and "\<forall>p \<in> set rpcPods. \<exists>t. last_seen_timestamp p = Some t \<and> \<bar>t * 1000\<bar> \<le> 8640000000000000"
    and "cache = None \<or> cache = Some []"
    and "\<forall>pc \<in> set ledger. map_of mergedData (pod_id pc) = None \<longrightarrow>
           (\<forall>ips g. geoService ips (generateDeterministicIP (pod_id pc)) = Some g \<longrightarrow> \<not> geo_success g)"
  shows "mset (map pubkey (fst (fetchFromRpcAndCache now src table)))
         = mset (map (\<lambda>x. or_default (rpc_pubkey (fst x)) (js ''unknown-'' @ toString (int (snd x))))
                   (indexed rpcPods))
       \<and> (\<exists>out. getClusterNodes_client now cache (Some ledger) mergedData geoService = Inr out
              \<and> map pubkey out = map pod_id ledger)"
  using fetchFromRpcAndCache_identities [OF assms(1) assms(2)]
    getClusterNodes_client_ledger [OF assms(3) assms(4)]
  by blast

theorem merge_follows_one_source_witness:
  "mset (map pubkey (fst (fetchFromRpcAndCache 0 src_Z_unlisted []))) = mset [js ''X'', js ''Y'']
   \<and> (\<exists>out. getClusterNodes_client 0 (Some []) (Some ledger_Y_Z) [] no_geolocation = Inr out
          \<and> map pubkey out = [js ''Y'', js ''Z''])"
proof -
  have a: "getPodsWithStats src_Z_unlisted = Some [rpc_pod ''X'', rpc_pod ''Y'']"
    by (simp add: src_Z_unlisted_def)
  have b: "\<forall>p \<in> set [rpc_pod ''X'', rpc_pod ''Y''].
      \<exists>t. last_seen_timestamp p = Some t \<and> \<bar>t * 1000\<bar> \<le> 8640000000000000"
    by (simp add: rpc_pod_def)
  have c0: "Some [] = None \<or> Some [] = Some ([] :: db_row list)"
    by simp
  have c: "\<forall>pc \<in> set ledger_Y_Z. map_of [] (pod_id pc) = None \<longrightarrow>
      (\<forall>ips g. no_geolocation ips (generateDeterministicIP (pod_id pc)) = Some g \<longrightarrow> \<not> geo_success g)"
    by (simp add: no_geolocation_def)
  have d: "map (\<lambda>x. or_default (rpc_pubkey (fst x)) (js ''unknown-'' @ toString (int (snd x))))
      (indexed [rpc_pod ''X'', rpc_pod ''Y'']) = [js ''X'', js ''Y'']"
    by code_simp
  have e: "map pod_id ledger_Y_Z = [js ''Y'', js ''Z'']"
    by (simp add: ledger_Y_Z_def)
  show ?thesis
    using merge_follows_one_source [OF a b c0 c, where now = 0 and table = "[]"] unfolding d e .
qed

section \<open>The claims about status and purity\<close>

text \<open>
  Claim C5, as stated, fails in \<open>transformPodToFull\<close>, which knows no degraded state:
  the ledger entry B with 100 credits becomes an online node.
\<close>

theorem transformPodToFull_never_degraded:
  "map_sum id status (transformPodToFull 0 \<lparr>pod_credits = 100, pod_id = js ''B''\<rparr> 1 None)
   = Inr online
   \<and> map_sum id status (transformPodToFull 0 \<lparr>pod_credits = 100, pod_id = js ''B''\<rparr> 1 None)
     \<noteq> Inr degraded"
proof -
  have "map_sum id status (transformPodToFull 0 \<lparr>pod_credits = 100, pod_id = js ''B''\<rparr> 1 None)
     = Inr online"
    by code_simp
  then show ?thesis by simp
qed

text \<open>
  Claim C5, amended. A node that \<open>transformPodToNode\<close> builds from a ledger entry is
  online when its credits exceed 5000, degraded when they are positive and at most
  5000, and offline otherwise; a node that \<open>transformPodToFull\<close> builds is online when
  its credits are positive and offline otherwise. Both always build a node.
\<close>

theorem status_from_credits:
  "(\<exists>n. transformPodToNode now pod index tn = Inr n
        \<and> status n = (if pod_credits pod > 5000 then online
                      else if pod_credits pod > 0 then degraded else offline))
   \<and> (\<exists>n. transformPodToFull now pod index realData = Inr n
        \<and> status n = (if pod_credits pod > 0 then online else offline))"
  using transformPodToNode_Inr [of now pod index tn]
    transformPodToFull_Inr [of now pod index realData]
  by blast

theorem status_from_credits_witness:
  "(\<exists>n. transformPodToNode 0 \<lparr>pod_credits = 9000, pod_id = js ''A''\<rparr> 0 3 = Inr n \<and> status n = online)
   \<and> (\<exists>n. transformPodToNode 0 \<lparr>pod_credits = 100, pod_id = js ''B''\<rparr> 1 3 = Inr n \<and> status n = degraded)
   \<and> (\<exists>n. transformPodToNode 0 \<lparr>pod_credits = 0, pod_id = js ''C''\<rparr> 2 3 = Inr n \<and> status n = offline)"
  using status_from_credits [of 0 "\<lparr>pod_credits = 9000, pod_id = js ''A''\<rparr>" 0 3 None]
    status_from_credits [of 0 "\<lparr>pod_credits = 100, pod_id = js ''B''\<rparr>" 1 3 None]
    status_from_credits [of 0 "\<lparr>pod_credits = 0, pod_id = js ''C''\<rparr>" 2 3 None]
  by simp



section \<open>The claims about the cache and the empty snapshot\<close>




text \<open>
  Claim C8. With a ledger that is \<open>null\<close> or empty and a cluster answer that is
  \<open>null\<close> or empty, both merges return the empty array; on the empty array the
  network health is 0 (by the guard on the node count, not by a division), the
  averages are 0, the distributions are empty and the Nakamoto coefficient is 0.
\<close>

theorem empty_sources:
  "getClusterNodes now None None = []
   \<and> getClusterNodes now (Some []) None = []
   \<and> getClusterNodes now None (Some []) = []
   \<and> getClusterNodes now (Some []) (Some []) = []
   \<and> fst (fetchFromRpcAndCache now (src\<lparr>getPodsWithStats := None\<rparr>) table) = []
   \<and> fst (fetchFromRpcAndCache now (src\<lparr>getPodsWithStats := Some []\<rparr>) table) = []
   \<and> networkHealth (getNetworkStats now []) = 0
   \<and> totalNodes (getNetworkStats now []) = 0
   \<and> averageUptime (getNetworkStats now []) = 0
   \<and> averageResponseTime (getNetworkStats now []) = 0
   \<and> nakamotoCoefficient (getDecentralizationMetrics []) = 0
   \<and> countryDistribution (getDecentralizationMetrics []) = []
   \<and> datacenterDistribution (getDecentralizationMetrics []) = []
   \<and> asnDistribution (getDecentralizationMetrics []) = []"
  by (simp add: getClusterNodes_def getNetworkStats_def getDecentralizationMetrics_def
      fetchFromRpcAndCache_def indexed_def new_Map_def List.map_filter_def Let_def)

section \<open>The claims about the query surface\<close>

lemma commission_known: "js ''commission-history'' \<in> set metric_types"
  by (simp add: metric_types_def)

text \<open>
  Claim C9, as stated, fails: a failure inside a metric function is answered with
  the message of the error, not with a generic one.
\<close>

theorem failure_message_passed_through:
  "http_status (GET run_failing \<lparr>q_type = Some (js ''network-stats''), q_nodeId = None\<rparr>) = 500
   \<and> http_body (GET run_failing \<lparr>q_type = Some (js ''network-stats''), q_nodeId = None\<rparr>)
       = ErrorBody (js ''connect ECONNREFUSED'')
   \<and> js ''connect ECONNREFUSED'' \<noteq> js ''Internal Server Error''"
  by code_simp

text \<open>
  The request for the commission history without a node id is answered with status
  500 and the message of the error thrown for it.
\<close>

lemma missing_nodeId_is_500:
  "GET run_ok \<lparr>q_type = Some (js ''commission-history''), q_nodeId = None\<rparr>
   = \<lparr>http_status = 500, http_body = ErrorBody (js ''nodeId required'')\<rparr>"
  by code_simp

text \<open>
  Claim C9, amended. An absent or unknown \<open>type\<close> is answered with status 400 and
  \<open>Invalid type param\<close>. For a known type (the commission history with its node id)
  a failure of the metric function is answered with status 500 and the message of
  the error, or \<open>Internal Server Error\<close> when it has none, and a success with status
  200 and the data.
\<close>

theorem query_surface_statuses:
  "(q_type req = None \<or> the (q_type req) \<notin> set metric_types \<longrightarrow>
      GET run req = \<lparr>http_status = 400, http_body = ErrorBody (js ''Invalid type param'')\<rparr>)
   \<and> (\<forall>t. q_type req = Some t \<and> t \<in> set metric_types
          \<and> (t = js ''commission-history'' \<longrightarrow> truthy (q_nodeId req)) \<longrightarrow>
        (\<forall>message. run t = Inl message \<longrightarrow>
           GET run req = \<lparr>http_status = 500,
                          http_body = ErrorBody (or_default message (js ''Internal Server Error''))\<rparr>)
        \<and> (\<forall>d. run t = Inr d \<longrightarrow> GET run req = \<lparr>http_status = 200, http_body = Data d\<rparr>))"
  using commission_known
  by (auto simp: GET_def dispatch_def split: option.splits sum.splits)

theorem query_surface_statuses_witness:
  "GET run_ok \<lparr>q_type = Some (js ''bogus''), q_nodeId = None\<rparr>
     = \<lparr>http_status = 400, http_body = ErrorBody (js ''Invalid type param'')\<rparr>
   \<and> GET run_failing \<lparr>q_type = Some (js ''x-score''), q_nodeId = None\<rparr>
     = \<lparr>http_status = 500, http_body = ErrorBody (js ''connect ECONNREFUSED'')\<rparr>
   \<and> GET run_ok \<lparr>q_type = Some (js ''x-score''), q_nodeId = None\<rparr>
     = \<lparr>http_status = 200, http_body = Data 0\<rparr>"
proof -
  have unknown: "js ''bogus'' \<notin> set metric_types"
    by code_simp
  have known: "js ''x-score'' \<in> set metric_types" "js ''x-score'' \<noteq> js ''commission-history''"
    by code_simp+
  have msg: "or_default (Some (js ''connect ECONNREFUSED'')) (js ''Internal Server Error'')
      = js ''connect ECONNREFUSED''"
    by code_simp
  show ?thesis
    using query_surface_statuses [of "\<lparr>q_type = Some (js ''bogus''), q_nodeId = None\<rparr>" run_ok]
      query_surface_statuses [of "\<lparr>q_type = Some (js ''x-score''), q_nodeId = None\<rparr>" run_failing]
      query_surface_statuses [of "\<lparr>q_type = Some (js ''x-score''), q_nodeId = None\<rparr>" run_ok]
      unknown known msg
    by (simp add: run_ok_def run_failing_def)
qed

section \<open>The claims about the derived metrics\<close>

lemma superminority_loop_prefix:
  "\<exists>k \<le> length xs.
      superminority_loop thr tot xs s acc = acc @ map (mk_superminority_node tot) (take k xs)
      \<and> (\<forall>j < k. of_int (s + sum_list (map credits_or_0 (take j xs))) < thr)
      \<and> (k = length xs \<or> thr \<le> of_int (s + sum_list (map credits_or_0 (take k xs))))"
proof (induction xs arbitrary: s acc)
  case Nil
  then show ?case by simp
next
  case (Cons node rest)
  show ?case
  proof (cases "thr \<le> of_int s")
    case True
    then show ?thesis
      by (intro exI [of _ 0]) simp
  next
    case False
    let ?acc = "acc @ [mk_superminority_node tot node]"
    from Cons.IH [of "s + credits_or_0 node" ?acc]
    obtain k where k: "k \<le> length rest"
      "superminority_loop thr tot rest (s + credits_or_0 node) ?acc
         = ?acc @ map (mk_superminority_node tot) (take k rest)"
      "\<forall>j < k. of_int (s + credits_or_0 node + sum_list (map credits_or_0 (take j rest))) < thr"
      "k = length rest \<or> thr \<le> of_int (s + credits_or_0 node + sum_list (map credits_or_0 (take k rest)))"
      by blast
    have below: "of_int (s + sum_list (map credits_or_0 (take j (node # rest)))) < thr"
      if "j < Suc k" for j
    proof (cases j)
      case 0
      with False show ?thesis by simp
    next
      case (Suc j')
      with that k(3) show ?thesis by (simp add: add.assoc)
    qed
    have "superminority_loop thr tot (node # rest) s acc
          = acc @ map (mk_superminority_node tot) (take (Suc k) (node # rest))"
      using False k(2) by (simp add: mk_superminority_node_def)
    moreover have "Suc k = length (node # rest)
        \<or> thr \<le> of_int (s + sum_list (map credits_or_0 (take (Suc k) (node # rest))))"
      using k(4) by (simp add: add.assoc)
    ultimately show ?thesis
      using k(1) below by (intro exI [of _ "Suc k"]) simp
  qed
qed

lemma foldl_add_sum_list:
  "foldl (\<lambda>acc n. acc + f n) a xs = a + sum_list (map f xs)" for a :: int
  by (induction xs arbitrary: a) (simp_all add: add.assoc)

lemma sort_key_descending:
  "sorted_wrt (\<lambda>a b. credits_or_0 a \<ge> credits_or_0 b) (sort_key (\<lambda>n. - credits_or_0 n) nodes)"
proof -
  have "sorted (map (\<lambda>n. - credits_or_0 n) (sort_key (\<lambda>n. - credits_or_0 n) nodes))"
    by (rule sorted_sort_key)
  then show ?thesis
    by (simp add: sorted_wrt_map)
qed

text \<open>
  Claim C4. \<open>getSuperminorityInfo\<close> sorts the nodes by descending credits (a
  permutation of the input) and returns the first \<open>k\<close> of them, where \<open>k\<close> is the
  least number of leading nodes whose credits add up to at least 33% of the total
  (every shorter prefix is below, and the prefix of length \<open>k\<close> reaches it unless it
  is the whole list); the count is \<open>k\<close> and the risk level is high below 5, medium
  below 15 and low otherwise.
\<close>

theorem superminority_is_shortest_prefix:
  "\<exists>k \<le> length nodes.
      sm_count (getSuperminorityInfo nodes) = k
      \<and> length (sm_nodes (getSuperminorityInfo nodes)) = k
      \<and> map sm_pubkey (sm_nodes (getSuperminorityInfo nodes))
          = map pubkey (take k (sort_key (\<lambda>n. - credits_or_0 n) nodes))
      \<and> map sm_stake (sm_nodes (getSuperminorityInfo nodes))
          = map credits_or_0 (take k (sort_key (\<lambda>n. - credits_or_0 n) nodes))
      \<and> (\<forall>j < k. of_int (sum_list (map credits_or_0 (take j (sort_key (\<lambda>n. - credits_or_0 n) nodes))))
                   < of_int (sum_list (map credits_or_0 nodes)) * (33 / 100 :: rat))
      \<and> (k = length nodes
          \<or> of_int (sum_list (map credits_or_0 nodes)) * (33 / 100 :: rat)
             \<le> of_int (sum_list (map credits_or_0 (take k (sort_key (\<lambda>n. - credits_or_0 n) nodes)))))
      \<and> riskLevel (getSuperminorityInfo nodes)
          = (if k < 5 then high else if k < 15 then medium else low)
      \<and> sorted_wrt (\<lambda>a b. credits_or_0 a \<ge> credits_or_0 b) (sort_key (\<lambda>n. - credits_or_0 n) nodes)
      \<and> mset (sort_key (\<lambda>n. - credits_or_0 n) nodes) = mset nodes"
proof -
  let ?sorted = "sort_key (\<lambda>n. - credits_or_0 n) nodes"
  let ?total = "sum_list (map credits_or_0 nodes)"
  let ?thr = "of_int ?total * (0.33 :: rat)"
  from superminority_loop_prefix [of ?sorted ?thr ?total 0 "[]"]
  obtain k where k: "k \<le> length ?sorted"
    "superminority_loop ?thr ?total ?sorted 0 [] = map (mk_superminority_node ?total) (take k ?sorted)"
    "\<forall>j < k. of_int (sum_list (map credits_or_0 (take j ?sorted))) < ?thr"
    "k = length ?sorted \<or> ?thr \<le> of_int (sum_list (map credits_or_0 (take k ?sorted)))"
    by auto
  have info: "getSuperminorityInfo nodes =
      \<lparr>sm_count = length (map (mk_superminority_node ?total) (take k ?sorted)),
       sm_threshold = 33,
       sm_nodes = map (mk_superminority_node ?total) (take k ?sorted),
       riskLevel = (if length (map (mk_superminority_node ?total) (take k ?sorted)) < 5 then high
                    else if length (map (mk_superminority_node ?total) (take k ?sorted)) < 15
                         then medium else low)\<rparr>"
    unfolding getSuperminorityInfo_def Let_def foldl_add_sum_list
    using k(2) by simp
  have len: "length (map (mk_superminority_node ?total) (take k ?sorted)) = k"
    using k(1) by simp
  have thr: "?thr = of_int ?total * (33 / 100 :: rat)"
    by simp
  show ?thesis
    using k(1) k(3) k(4) sort_key_descending [of nodes]
    unfolding info len thr
    by (intro exI [of _ k]) (simp add: mk_superminority_node_def comp_def)
qed

lemma ten_nodes_superminority:
  "sm_count (getSuperminorityInfo ten_nodes) = 2
   \<and> map sm_pubkey (sm_nodes (getSuperminorityInfo ten_nodes)) = [js ''node1'', js ''node2'']
   \<and> map sm_stake (sm_nodes (getSuperminorityInfo ten_nodes)) = [500, 400]
   \<and> riskLevel (getSuperminorityInfo ten_nodes) = high"
  by code_simp

theorem superminority_is_shortest_prefix_witness:
  "sm_count (getSuperminorityInfo ten_nodes) = 2
   \<and> map sm_pubkey (sm_nodes (getSuperminorityInfo ten_nodes)) = [js ''node1'', js ''node2'']
   \<and> riskLevel (getSuperminorityInfo ten_nodes) = high
   \<and> map sm_pubkey (sm_nodes (getSuperminorityInfo ten_nodes))
       = map pubkey (take 2 (sort_key (\<lambda>n. - credits_or_0 n) ten_nodes))
   \<and> of_int (sum_list (map credits_or_0 (take 1 (sort_key (\<lambda>n. - credits_or_0 n) ten_nodes))))
       < of_int (sum_list (map credits_or_0 ten_nodes)) * (33 / 100 :: rat)"
proof -
  from superminority_is_shortest_prefix [of ten_nodes]
  obtain k where k: "sm_count (getSuperminorityInfo ten_nodes) = k"
    "map sm_pubkey (sm_nodes (getSuperminorityInfo ten_nodes))
       = map pubkey (take k (sort_key (\<lambda>n. - credits_or_0 n) ten_nodes))"
    "\<forall>j < k. of_int (sum_list (map credits_or_0 (take j (sort_key (\<lambda>n. - credits_or_0 n) ten_nodes))))
                < of_int (sum_list (map credits_or_0 ten_nodes)) * (33 / 100 :: rat)"
    by blast
  from k(1) ten_nodes_superminority have two: "k = 2"
    by simp
  from k(3) have "of_int (sum_list (map credits_or_0 (take 1 (sort_key (\<lambda>n. - credits_or_0 n) ten_nodes))))
       < of_int (sum_list (map credits_or_0 ten_nodes)) * (33 / 100 :: rat)"
    unfolding two by simp
  with k(2) ten_nodes_superminority show ?thesis
    unfolding two by blast
qed








end
